theory Spec2Isabelle
  imports Main "HOL-Library.Multiset" "HOL-Library.Char_ord" "HOL-Library.List_Lexorder"
begin

section \<open>The video looper: data model\<close>

text \<open>
  The development embeds \<^verbatim>\<open>Adafruit_Video_Looper/video_looper.py\<close>: class
  \<^verbatim>\<open>VideoLooper\<close>, its playlist builder, its keyboard and GPIO handlers and the
  main loop of \<^verbatim>\<open>run\<close>. Mutation of \<^verbatim>\<open>self\<close> is explicit state passing
  over the record \<open>looper\<close>; every call to a collaborator (Player, Playlist, pygame,
  GPIO, \<^verbatim>\<open>time.sleep\<close>, \<^verbatim>\<open>print\<close>) is appended to the field \<open>events\<close>, in
  call order. Exceptions are values: a function that can raise returns
  \<open>error + 'a\<close>, with \<open>Inl\<close> the exception.

  \<^verbatim>\<open>__init__\<close> starts the keyboard handler on a thread of its own, and the GPIO
  handler is called by the GPIO library; here each handler call and each iteration of
  the main loop is one step, and what a step reads from the outside (the file system,
  the Player's answers, random draws, keys, signals) is an argument of the step. Whether
  a function runs on the main thread is an argument too, where the library asks.
\<close>

datatype error =
    IndexError | KeyError | ValueError | OverflowError | AttributeError | OSError
  | KeyboardInterrupt

text \<open>
  A value of the JSON pin map (\<^verbatim>\<open>json.loads\<close>): the handler only compares it with
  strings and hands it on, so strings and integers are told apart and everything else
  (floats, booleans, null, arrays, objects) is \<open>JOther\<close>.
\<close>

datatype json = JStr string | JInt int | JOther

text \<open>The pygame key constants the handlers name.\<close>

datatype key =
    K_ESCAPE | K_SPACE | K_RIGHT | K_LEFT | K_UP | K_DOWN
  | K_r | K_s | K_m | K_k | K_p | K_b | K_o | K_i
  | K_MINUS | K_PLUS | K_KP_PLUS | K_OTHER

text \<open>
  What the third argument of \<^verbatim>\<open>Movie(path, basename, repeat)\<close> is at the call in
  \<^verbatim>\<open>_build_playlist_from_all_files\<close>: the digit string of the regex group
  (a \<^verbatim>\<open>str\<close>), or the integer \<^verbatim>\<open>1\<close>.
\<close>

datatype repeat_arg = RStr string | RInt int

text \<open>
  The result of Python's \<^verbatim>\<open>float(s)\<close> as far as the code reads it: the code only
  applies \<^verbatim>\<open>int\<close> to it, so a finite float is carried by its truncation towards
  zero; \<^verbatim>\<open>int\<close> raises on infinities and on NaN.
\<close>

datatype pyfloat = Finite int | Infinity | NaN

subsection \<open>Movie and Playlist\<close>

text \<open>
  Modelled from the spec: the class \<^verbatim>\<open>Movie\<close> of \<^verbatim>\<open>model.py\<close>, which the source
  imports and which is not among the source files. Section 3 of the specification: a
  Movie has a path (its identity), a display title and a repeat count, a positive
  integer.
\<close>

record movie =
  path :: string
  title :: string
  repeat :: int

text \<open>
  Modelled from the spec: the class \<^verbatim>\<open>Playlist\<close> of \<^verbatim>\<open>model.py\<close> (not among the
  source files). Section 3: an ordered sequence of Movies with a cursor and an optional
  pending index set by an external command.
\<close>

record playlist =
  movies :: "movie list"
  cursor :: int
  pending :: "int option"

text \<open>
  Modelled from the spec: the value of one decimal digit of the repeat count that the
  file name carries.
\<close>

definition digit_value :: "char \<Rightarrow> int" where
  "digit_value c = int (of_char c) - 48"

text \<open>
  Modelled from the spec: the repeat count "parsed from a filename convention", as the
  decimal value of the digit string the scan hands to the constructor. The specification
  is silent on an empty digit string; it has the value 0 here.
\<close>

definition decimal :: "string \<Rightarrow> int" where
  "decimal ds = foldl (\<lambda>acc c. 10 * acc + digit_value c) 0 ds"

text \<open>
  Modelled from the spec: the number the constructor reads from its third argument, a
  digit string or an integer.
\<close>

fun repeat_value :: "repeat_arg \<Rightarrow> int" where
  "repeat_value (RStr ds) = decimal ds"
| "repeat_value (RInt n) = n"

text \<open>
  Modelled from the spec: the constructor \<^verbatim>\<open>Movie(path, title, repeat)\<close>. The
  repeat count is a positive integer, and "a repeat-count of less than 1 is treated as 1"
  (section 4.3).
\<close>

definition Movie :: "string \<Rightarrow> string \<Rightarrow> repeat_arg \<Rightarrow> movie" where
  "Movie p t r = \<lparr>path = p, title = t, repeat = max 1 (repeat_value r)\<rparr>"

text \<open>
  Modelled from the spec: the constructor \<^verbatim>\<open>Playlist(movies)\<close> keeps the order it
  is given (the caller sorts; a playlist file keeps its own order) and "sets cursor = -1
  (unset)" (section 4.1).
\<close>

definition Playlist :: "movie list \<Rightarrow> playlist" where
  "Playlist ms = \<lparr>movies = ms, cursor = - 1, pending = None\<rparr>"

text \<open>Modelled from the spec: \<^verbatim>\<open>length()\<close>, the number of movies.\<close>

definition plength :: "playlist \<Rightarrow> nat" where
  "plength pl = length (movies pl)"

text \<open>
  Modelled from the spec: playlist equality, "structural equality over the multiset of
  (path, repeat) pairs, independent of order/cursor" (section 4.1). Python's \<^verbatim>\<open>!=\<close>
  is its negation.
\<close>

definition playlist_eq :: "playlist \<Rightarrow> playlist \<Rightarrow> bool" where
  "playlist_eq a b \<longleftrightarrow>
     mset (map (\<lambda>m. (path m, repeat m)) (movies a)) = mset (map (\<lambda>m. (path m, repeat m)) (movies b))"

text \<open>
  Modelled from the spec: \<^verbatim>\<open>set_next(index)\<close> "rejects out-of-range index (reject
  silently, keep old cursor) and marks it for pickup by the following next call"
  (section 4.1). The handler passes the pin map's JSON value; anything but an integer
  inside \<open>[0, length)\<close> is rejected.
\<close>

fun set_next :: "json \<Rightarrow> playlist \<Rightarrow> playlist" where
  "set_next (JInt i) pl = (if 0 \<le> i \<and> i < int (plength pl) then pl\<lparr>pending := Some i\<rparr> else pl)"
| "set_next _ pl = pl"

text \<open>
  Modelled from the spec: the random pick of \<^verbatim>\<open>next\<close>/\<^verbatim>\<open>previous\<close>, "a uniformly
  random index different from the current one when length > 1 (falls back to the same
  index when length == 1)". The random source is the draw \<open>r\<close>, an argument.
\<close>

definition random_index :: "nat \<Rightarrow> playlist \<Rightarrow> int" where
  "random_index r pl =
     (let others = filter (\<lambda>i. i \<noteq> cursor pl) (map int [0 ..< plength pl])
      in if others = [] then 0 else others ! (r mod length others))"

text \<open>
  Modelled from the spec: \<^verbatim>\<open>next_movie(random)\<close>: "if empty, returns None"; a
  pending index set by \<open>set_next\<close> is picked up by this call (section 8:
  "SetIndex(2) followed by Next ... results in playback of item index 2");
  otherwise a random pick, or the cursor advances circularly,
  \<open>(cursor + 1) mod length\<close>. The cursor is updated as a side effect: the
  function returns the movie and the updated playlist.
\<close>

definition next_movie :: "bool \<Rightarrow> nat \<Rightarrow> playlist \<Rightarrow> movie option \<times> playlist" where
  "next_movie random r pl =
     (if plength pl = 0 then (None, pl)
      else
        let i = (case pending pl of
                   Some j \<Rightarrow> j
                 | None \<Rightarrow> if random then random_index r pl
                           else (cursor pl + 1) mod int (plength pl))
        in (Some (movies pl ! nat i), pl\<lparr>cursor := i, pending := None\<rparr>))"

text \<open>
  Modelled from the spec: \<^verbatim>\<open>previous_movie(random)\<close>, "symmetric to next;
  circular decrement, or random pick, per the same rule".
\<close>

definition previous_movie :: "bool \<Rightarrow> nat \<Rightarrow> playlist \<Rightarrow> movie option \<times> playlist" where
  "previous_movie random r pl =
     (if plength pl = 0 then (None, pl)
      else
        let i = (if random then random_index r pl
                 else (cursor pl - 1) mod int (plength pl))
        in (Some (movies pl ! nat i), pl\<lparr>cursor := i\<rparr>))"


section \<open>The Controller: class VideoLooper\<close>

subsection \<open>Configuration, environment, state and trace\<close>

text \<open>
  The attributes \<^verbatim>\<open>__init__\<close> reads from the configuration file and never
  changes afterwards. \<open>playlist_path\<close> is \<open>None\<close> when the section
  \<^verbatim>\<open>playlist\<close> has no option \<^verbatim>\<open>path\<close>. \<open>extensions\<close> is the list the Player's
  \<^verbatim>\<open>supported_extensions()\<close> returns. \<open>pinMap\<close> is the parsed JSON object of
  \<^verbatim>\<open>gpio_pin_map\<close>, or \<open>None\<close>. \<open>keyboard_control\<close> decides whether
  \<^verbatim>\<open>__init__\<close> starts the keyboard thread.
\<close>

record config =
  console_output :: bool
  is_random :: bool
  wait_time :: int
  keyboard_control :: bool
  gpio_control_disabled_while_playback :: bool
  playlist_path :: "string option"
  alsa_hw_vol_file :: string
  sound_vol_file :: string
  extensions :: "string list"
  pinMap :: "(string \<times> json) list option"

text \<open>
  What one run of the playlist builder observes of the outside: the FileReader's
  \<^verbatim>\<open>search_paths()\<close>, the file system (\<^verbatim>\<open>os.path.isfile\<close>, \<^verbatim>\<open>os.path.exists\<close>,
  \<^verbatim>\<open>os.path.isdir\<close>, \<^verbatim>\<open>os.listdir\<close>, the first line of a file, where \<^verbatim>\<open>open\<close>
  may raise), the playlist \<^verbatim>\<open>build_playlist_m3u\<close> parses from a file
  (\<^verbatim>\<open>playlist_builders.py\<close> is not among the source files), and Python's \<^verbatim>\<open>float\<close>
  on strings (\<open>None\<close>: \<^verbatim>\<open>ValueError\<close>). One build sees one snapshot.
\<close>

record world =
  search_paths :: "string list"
  isfile :: "string \<Rightarrow> bool"
  path_exists :: "string \<Rightarrow> bool"
  isdir :: "string \<Rightarrow> bool"
  listdir :: "string \<Rightarrow> string list"
  readline :: "string \<Rightarrow> error + string"
  build_playlist_m3u :: "string \<Rightarrow> playlist"
  py_float :: "string \<Rightarrow> pyfloat option"

datatype message =
    PlayingNext string
  | PlayingPrevious string
  | PathMissing string
  | PathResolved string
  | PathUnresolved string
  | UnrecognizedFormat string
  | UpdatingPlaylist
  | GpioDisabled
  | PinTriggered int json

text \<open>
  The trace. \<open>Enter_play_next\<close> and \<open>Enter_play_previous\<close> mark a call of
  \<^verbatim>\<open>_play_next\<close> and \<^verbatim>\<open>_play_previous\<close>; the others are calls to collaborators:
  the Playlist (\<open>PlaylistNext\<close>, \<open>PlaylistPrevious\<close>, \<open>PlaylistSetNext\<close>), the
  Player (\<open>PlayerStop None\<close> is \<^verbatim>\<open>stop()\<close>, \<open>PlayerStop (Some 3)\<close> is
  \<^verbatim>\<open>stop(3)\<close>), \<^verbatim>\<open>pygame.event.post\<close> of a key-down event, \<^verbatim>\<open>time.sleep\<close>
  (\<open>Sleep n\<close> in the main loop, \<open>KeyboardSleep\<close> for the \<^verbatim>\<open>time.sleep(0.1)\<close> of the
  keyboard handler), \<^verbatim>\<open>GPIO.cleanup\<close>, \<^verbatim>\<open>pygame.quit\<close> and \<^verbatim>\<open>print\<close>.
\<close>

datatype event =
    Enter_play_next
  | Enter_play_previous
  | PlaylistNext bool
  | PlaylistPrevious bool
  | PlaylistSetNext json
  | PlayerPlay string int
  | PlayerStop "nat option"
  | PlayerTogglePause
  | PlayerToggleMute
  | PlayerIncreaseVolume
  | PlayerDecreaseVolume
  | PostKeyDown "key option"
  | Sleep int
  | KeyboardSleep
  | GpioCleanup
  | PygameQuit
  | Print message

text \<open>
  The mutable attributes of \<^verbatim>\<open>self\<close>: \<^verbatim>\<open>_playlist\<close> (\<open>None\<close> until \<^verbatim>\<open>run\<close>
  builds one), \<^verbatim>\<open>_playbackStopped\<close>, \<^verbatim>\<open>_running\<close>, \<^verbatim>\<open>_sound_vol\<close> (default 0),
  \<^verbatim>\<open>_alsa_hw_vol\<close> (default \<open>None\<close>), and the trace.
\<close>

record looper =
  playlist :: "playlist option"
  playbackStopped :: bool
  running :: bool
  sound_vol :: int
  alsa_hw_vol :: "string option"
  events :: "event list"

definition emit :: "event \<Rightarrow> looper \<Rightarrow> looper" where
  "emit e s = s\<lparr>events := events s @ [e]\<rparr>"

text \<open>\<^verbatim>\<open>_print\<close>: prints only when console output is enabled.\<close>

definition print_msg :: "config \<Rightarrow> message \<Rightarrow> looper \<Rightarrow> looper" where
  "print_msg cfg m s = (if console_output cfg then emit (Print m) s else s)"

subsection \<open>Strings, paths and the two regular expressions\<close>

definition lower :: "char \<Rightarrow> char" where
  "lower c = (if CHR ''A'' \<le> c \<and> c \<le> CHR ''Z'' then char_of (of_char c + (32::nat)) else c)"

definition is_digit :: "char \<Rightarrow> bool" where
  "is_digit c \<longleftrightarrow> CHR ''0'' \<le> c \<and> c \<le> CHR ''9''"

definition startswith_ci :: "string \<Rightarrow> string \<Rightarrow> bool" where
  "startswith_ci pre s \<longleftrightarrow> map lower (take (length pre) s) = map lower pre"

definition endswith_ci :: "string \<Rightarrow> string \<Rightarrow> bool" where
  "endswith_ci suf s \<longleftrightarrow> map lower (drop (length s - length suf) s) = map lower suf"

text \<open>\<^verbatim>\<open>path.rstrip('/')\<close>.\<close>

definition rstrip_slash :: "string \<Rightarrow> string" where
  "rstrip_slash s = rev (dropWhile (\<lambda>c. c = CHR ''/'') (rev s))"

text \<open>\<^verbatim>\<open>os.path.isabs\<close> and \<^verbatim>\<open>os.path.join\<close> of two parts (posixpath).\<close>

definition isabs :: "string \<Rightarrow> bool" where
  "isabs s \<longleftrightarrow> (case s of [] \<Rightarrow> False | c # _ \<Rightarrow> c = CHR ''/'')"

definition join :: "string \<Rightarrow> string \<Rightarrow> string" where
  "join a b =
     (if isabs b then b
      else if a = [] \<or> last a = CHR ''/'' then a @ b
      else a @ ''/'' @ b)"

text \<open>
  \<^verbatim>\<open>os.path.splitext\<close> (posixpath): the extension starts at the last dot of the
  last path component, unless only dots precede it there.
\<close>

definition splitext :: "string \<Rightarrow> string \<times> string" where
  "splitext p =
     (let comp = rev (takeWhile (\<lambda>c. c \<noteq> CHR ''/'') (rev p));
          ext = rev (takeWhile (\<lambda>c. c \<noteq> CHR ''.'') (rev comp));
          stem = take (length comp - length ext - 1) comp
      in if CHR ''.'' \<in> set comp \<and> list_ex (\<lambda>c. c \<noteq> CHR ''.'') stem
         then (take (length p - length ext - 1) p, CHR ''.'' # ext)
         else (p, []))"

text \<open>
  \<^verbatim>\<open>re.search('\.({0})$'.format(self._extensions), x, flags=re.IGNORECASE)\<close>, where
  \<^verbatim>\<open>self._extensions\<close> is \<^verbatim>\<open>'|'.join(supported_extensions())\<close>: the name ends
  with a dot and one of the alternatives, at the end of the string or before a final
  newline. The extensions are taken to be plain letters and digits, and case is folded
  over ASCII. An empty list joins to the empty string, a single empty alternative.
\<close>

definition alternatives :: "string list \<Rightarrow> string list" where
  "alternatives exts = (if exts = [] then [[]] else exts)"

definition re_search_ext :: "string list \<Rightarrow> string \<Rightarrow> bool" where
  "re_search_ext exts x \<longleftrightarrow>
     list_ex (\<lambda>e. endswith_ci (CHR ''.'' # e) x
                \<or> (x \<noteq> [] \<and> last x = CHR 0x0A \<and> endswith_ci (CHR ''.'' # e) (butlast x)))
       (alternatives exts)"

text \<open>
  \<^verbatim>\<open>re.search('_repeat_([0-9]*)x', x, flags=re.IGNORECASE)\<close>: \<open>match_repeat\<close> is
  the match anchored at the start of its argument, \<open>re_search_repeat\<close> tries every
  start from the left and returns group 1 of the first match. The digits are taken
  greedily; since \<^verbatim>\<open>x\<close> is no digit, no shorter run of digits can match.
\<close>

definition match_repeat :: "string \<Rightarrow> string option" where
  "match_repeat s =
     (if length s \<ge> 8 \<and> startswith_ci ''_repeat_'' s then
        (case dropWhile is_digit (drop 8 s) of
           [] \<Rightarrow> None
         | c # _ \<Rightarrow> if lower c = CHR ''x'' then Some (takeWhile is_digit (drop 8 s)) else None)
      else None)"

fun re_search_repeat :: "string \<Rightarrow> string option" where
  "re_search_repeat [] = None"
| "re_search_repeat (c # cs) =
     (case match_repeat (c # cs) of
        Some g \<Rightarrow> Some g
      | None \<Rightarrow> re_search_repeat cs)"

text \<open>\<^verbatim>\<open>str(n)\<close> of an integer.\<close>

fun str_nat :: "nat \<Rightarrow> string" where
  "str_nat n = (if n < 10 then [char_of (48 + n)] else str_nat (n div 10) @ [char_of (48 + n mod 10)])"

definition str_int :: "int \<Rightarrow> string" where
  "str_int i = (if i < 0 then CHR ''-'' # str_nat (nat (- i)) else str_nat (nat i))"


subsection \<open>Playing the next and the previous movie\<close>

text \<open>
  \<^verbatim>\<open>_play_next\<close>. \<open>r\<close> is the random draw the Playlist may use. A call while
  \<^verbatim>\<open>self._playlist\<close> is still \<^verbatim>\<open>None\<close> raises \<^verbatim>\<open>AttributeError\<close>, as does
  \<^verbatim>\<open>movie.path\<close> should the Playlist return \<^verbatim>\<open>None\<close>.
\<close>

definition play_next :: "config \<Rightarrow> nat \<Rightarrow> looper \<Rightarrow> error + looper" where
  "play_next cfg r s0 =
     (let s = emit Enter_play_next s0 in
      case playlist s of
        None \<Rightarrow> Inl AttributeError
      | Some pl \<Rightarrow>
          if plength pl = 0 then Inr s
          else
            (case next_movie (is_random cfg) r pl of
               (None, pl') \<Rightarrow> Inl AttributeError
             | (Some movie, pl') \<Rightarrow>
                 Inr (emit (PlayerPlay (path movie) (sound_vol s))
                       (print_msg cfg (PlayingNext (path movie))
                         (emit (PlaylistNext (is_random cfg)) (s\<lparr>playlist := Some pl'\<rparr>))))))"

text \<open>\<^verbatim>\<open>_play_previous\<close>.\<close>

definition play_previous :: "config \<Rightarrow> nat \<Rightarrow> looper \<Rightarrow> error + looper" where
  "play_previous cfg r s0 =
     (let s = emit Enter_play_previous s0 in
      case playlist s of
        None \<Rightarrow> Inl AttributeError
      | Some pl \<Rightarrow>
          if plength pl = 0 then Inr s
          else
            (case previous_movie (is_random cfg) r pl of
               (None, pl') \<Rightarrow> Inl AttributeError
             | (Some movie, pl') \<Rightarrow>
                 Inr (emit (PlayerPlay (path movie) (sound_vol s))
                       (print_msg cfg (PlayingPrevious (path movie))
                         (emit (PlaylistPrevious (is_random cfg)) (s\<lparr>playlist := Some pl'\<rparr>))))))"

subsection \<open>Building the playlist\<close>

text \<open>\<^verbatim>\<open>_is_number\<close>: \<^verbatim>\<open>float(s)\<close> does not raise \<^verbatim>\<open>ValueError\<close>.\<close>

definition is_number :: "world \<Rightarrow> string \<Rightarrow> bool" where
  "is_number w s \<longleftrightarrow> py_float w s \<noteq> None"

text \<open>\<^verbatim>\<open>int(float(s))\<close>.\<close>

definition int_float :: "world \<Rightarrow> string \<Rightarrow> error + int" where
  "int_float w s =
     (case py_float w s of
        None \<Rightarrow> Inl ValueError
      | Some (Finite n) \<Rightarrow> Inr n
      | Some Infinity \<Rightarrow> Inl OverflowError
      | Some NaN \<Rightarrow> Inl ValueError)"

text \<open>
  The inner loop of \<^verbatim>\<open>_build_playlist_from_all_files\<close> over \<^verbatim>\<open>os.listdir(path)\<close>:
  \<open>ms\<close> is the list \<^verbatim>\<open>movies\<close> so far. \<^verbatim>\<open>x[0]\<close> raises on an empty name.
\<close>

fun scan_dir :: "config \<Rightarrow> string \<Rightarrow> string list \<Rightarrow> movie list \<Rightarrow> error + movie list" where
  "scan_dir cfg p [] ms = Inr ms"
| "scan_dir cfg p (x # xs) ms =
     (case x of
        [] \<Rightarrow> Inl IndexError
      | c # _ \<Rightarrow>
          if c \<noteq> CHR ''.'' \<and> re_search_ext (extensions cfg) x then
            let repeat_setting = re_search_repeat x;
                rep = (case repeat_setting of Some g \<Rightarrow> RStr g | None \<Rightarrow> RInt 1);
                basename = fst (splitext x)
            in scan_dir cfg p xs (ms @ [Movie (rstrip_slash p @ ''/'' @ x) basename rep])
          else scan_dir cfg p xs ms)"

text \<open>The sidecar file with the ALSA hardware volume, under search path \<open>p\<close>.\<close>

definition read_alsa_hw_vol :: "config \<Rightarrow> world \<Rightarrow> string \<Rightarrow> looper \<Rightarrow> error + looper" where
  "read_alsa_hw_vol cfg w p s =
     (if alsa_hw_vol_file cfg \<noteq> [] then
        let alsa_hw_vol_file_path = rstrip_slash p @ ''/'' @ alsa_hw_vol_file cfg in
        if path_exists w alsa_hw_vol_file_path then
          (case readline w alsa_hw_vol_file_path of
             Inl e \<Rightarrow> Inl e
           | Inr alsa_hw_vol_string \<Rightarrow> Inr (s\<lparr>alsa_hw_vol := Some alsa_hw_vol_string\<rparr>))
        else Inr s
      else Inr s)"

text \<open>The sidecar file with the video (software) volume, under search path \<open>p\<close>.\<close>

definition read_sound_vol :: "config \<Rightarrow> world \<Rightarrow> string \<Rightarrow> looper \<Rightarrow> error + looper" where
  "read_sound_vol cfg w p s =
     (if sound_vol_file cfg \<noteq> [] then
        let sound_vol_file_path = rstrip_slash p @ ''/'' @ sound_vol_file cfg in
        if path_exists w sound_vol_file_path then
          (case readline w sound_vol_file_path of
             Inl e \<Rightarrow> Inl e
           | Inr sound_vol_string \<Rightarrow>
               if is_number w sound_vol_string then
                 (case int_float w sound_vol_string of
                    Inl e \<Rightarrow> Inl e
                  | Inr v \<Rightarrow> Inr (s\<lparr>sound_vol := v\<rparr>))
               else Inr s)
        else Inr s
      else Inr s)"

text \<open>The outer loop of \<^verbatim>\<open>_build_playlist_from_all_files\<close> over the search paths.\<close>

fun scan_paths :: "config \<Rightarrow> world \<Rightarrow> string list \<Rightarrow> movie list \<Rightarrow> looper \<Rightarrow> error + (movie list \<times> looper)" where
  "scan_paths cfg w [] ms s = Inr (ms, s)"
| "scan_paths cfg w (p # ps) ms s =
     (if \<not> path_exists w p \<or> \<not> isdir w p then scan_paths cfg w ps ms s
      else
        (case scan_dir cfg p (listdir w p) ms of
           Inl e \<Rightarrow> Inl e
         | Inr ms1 \<Rightarrow>
             (case read_alsa_hw_vol cfg w p s of
                Inl e \<Rightarrow> Inl e
              | Inr s1 \<Rightarrow>
                  (case read_sound_vol cfg w p s1 of
                     Inl e \<Rightarrow> Inl e
                   | Inr s2 \<Rightarrow> scan_paths cfg w ps ms1 s2))))"

text \<open>
  \<^verbatim>\<open>_build_playlist_from_all_files\<close>. \<^verbatim>\<open>sorted(movies)\<close> is stable and compares
  Movies with the order of \<^verbatim>\<open>model.py\<close>; modelled from the spec: "sorts movies by
  path" (section 4.1).
\<close>

definition build_playlist_from_all_files :: "config \<Rightarrow> world \<Rightarrow> looper \<Rightarrow> error + (playlist \<times> looper)" where
  "build_playlist_from_all_files cfg w s =
     (case scan_paths cfg w (search_paths w) [] s of
        Inl e \<Rightarrow> Inl e
      | Inr (ms, s') \<Rightarrow> Inr (Playlist (sort_key path ms), s'))"

text \<open>
  The \<^verbatim>\<open>for ... else\<close> loop of \<^verbatim>\<open>_build_playlist\<close> that resolves a relative
  playlist path \<open>pp\<close> (the local \<^verbatim>\<open>playlist_path\<close>): the first search path under
  which the joined path is a file.
\<close>

fun resolve_relative :: "world \<Rightarrow> string \<Rightarrow> string list \<Rightarrow> string option" where
  "resolve_relative w pp [] = None"
| "resolve_relative w pp (p # ps) =
     (let maybe_playlist_path = join p pp in
      if isfile w maybe_playlist_path then Some maybe_playlist_path
      else resolve_relative w pp ps)"

text \<open>The end of \<^verbatim>\<open>_build_playlist\<close>, reached with a resolved path: the extension decides.\<close>

definition build_by_extension :: "config \<Rightarrow> world \<Rightarrow> string \<Rightarrow> looper \<Rightarrow> error + (playlist \<times> looper)" where
  "build_by_extension cfg w pp s =
     (let extension = snd (splitext pp) in
      if extension = ''.m3u'' \<or> extension = ''.m3u8'' then Inr (build_playlist_m3u w pp, s)
      else build_playlist_from_all_files cfg w (print_msg cfg (UnrecognizedFormat extension) s))"

text \<open>\<^verbatim>\<open>_build_playlist\<close>.\<close>

definition build_playlist :: "config \<Rightarrow> world \<Rightarrow> looper \<Rightarrow> error + (playlist \<times> looper)" where
  "build_playlist cfg w s =
     (case playlist_path cfg of
        None \<Rightarrow> build_playlist_from_all_files cfg w s
      | Some pp \<Rightarrow>
          if pp \<noteq> [] then
            (if isabs pp then
               (if \<not> isfile w pp then
                  build_playlist_from_all_files cfg w (print_msg cfg (PathMissing pp) s)
                else build_by_extension cfg w pp s)
             else
               (let paths = search_paths w in
                if paths = [] then Inr (Playlist [], s)
                else
                  (case resolve_relative w pp paths of
                     Some resolved \<Rightarrow> build_by_extension cfg w resolved (print_msg cfg (PathResolved resolved) s)
                   | None \<Rightarrow> build_playlist_from_all_files cfg w (print_msg cfg (PathUnresolved pp) s))))
          else build_playlist_from_all_files cfg w s)"


subsection \<open>Keyboard, signal and GPIO handlers\<close>

text \<open>
  The \<^verbatim>\<open>if\<close>/\<^verbatim>\<open>elif\<close> chain inside the loops of \<^verbatim>\<open>_handle_keyboard_shortcuts\<close>
  (lines 338 to 372), for one \<^verbatim>\<open>KEYDOWN\<close> event with the given key. \<open>w\<close> is what a
  rebuild (key \<^verbatim>\<open>r\<close>) observes and \<open>r\<close> the random draw. The chain is reached only
  once the first statement of the function has returned: see
  \<open>handle_keyboard_shortcuts\<close> below.
\<close>

fun handle_keydown :: "config \<Rightarrow> world \<Rightarrow> nat \<Rightarrow> key \<Rightarrow> looper \<Rightarrow> error + looper" where
  "handle_keydown cfg w r K_ESCAPE s = Inr (s\<lparr>running := False\<rparr>)"
| "handle_keydown cfg w r K_SPACE s = Inr (emit PlayerTogglePause s)"
| "handle_keydown cfg w r K_RIGHT s = play_next cfg r s"
| "handle_keydown cfg w r K_LEFT s = play_previous cfg r s"
| "handle_keydown cfg w r K_r s =
     (case build_playlist cfg w s of
        Inl e \<Rightarrow> Inl e
      | Inr (pl, s1) \<Rightarrow> play_next cfg r (s1\<lparr>playlist := Some pl\<rparr>))"
| "handle_keydown cfg w r K_s s = Inr (emit (PlayerStop None) s)"
| "handle_keydown cfg w r K_MINUS s = Inr (emit PlayerDecreaseVolume s)"
| "handle_keydown cfg w r K_PLUS s = Inr (emit PlayerIncreaseVolume s)"
| "handle_keydown cfg w r K_KP_PLUS s = Inr (emit PlayerIncreaseVolume s)"
| "handle_keydown cfg w r K_m s = Inr (emit PlayerToggleMute s)"
| "handle_keydown cfg w r K_UP s = play_next cfg r s"
| "handle_keydown cfg w r K_DOWN s = play_previous cfg r s"
| "handle_keydown cfg w r _ s = Inr s"

text \<open>\<^verbatim>\<open>_handle_exit_signal\<close>.\<close>

definition handle_exit_signal :: "looper \<Rightarrow> looper" where
  "handle_exit_signal s = s\<lparr>running := False\<rparr>"

text \<open>
  \<^verbatim>\<open>signal.signal\<close>: Python allows it on the main thread of the main interpreter
  only and raises \<^verbatim>\<open>ValueError\<close> on any other thread.
\<close>

definition signal_signal :: "bool \<Rightarrow> error + unit" where
  "signal_signal on_main_thread = (if on_main_thread then Inr () else Inl ValueError)"

text \<open>
  The \<^verbatim>\<open>for\<close> loop of \<^verbatim>\<open>_handle_keyboard_shortcuts\<close> over one result of
  \<^verbatim>\<open>pygame.event.get()\<close>: its key-down events, each with what its branch observes.
\<close>

fun keyboard_events :: "config \<Rightarrow> (key \<times> world \<times> nat) list \<Rightarrow> looper \<Rightarrow> error + looper" where
  "keyboard_events cfg [] s = Inr s"
| "keyboard_events cfg ((k, w, r) # ks) s =
     (case handle_keydown cfg w r k s of
        Inl e \<Rightarrow> Inl e
      | Inr s1 \<Rightarrow> keyboard_events cfg ks s1)"

text \<open>
  The \<^verbatim>\<open>while self._running\<close> loop of \<^verbatim>\<open>_handle_keyboard_shortcuts\<close>. The list
  holds the results of the successive polls; polls used up while \<^verbatim>\<open>self._running\<close>
  still holds give \<open>None\<close>.
\<close>

fun keyboard_loop :: "config \<Rightarrow> (key \<times> world \<times> nat) list list \<Rightarrow> looper \<Rightarrow> (error + looper) option" where
  "keyboard_loop cfg [] s = (if running s then None else Some (Inr s))"
| "keyboard_loop cfg (b # bs) s =
     (if running s then
        (case keyboard_events cfg b s of
           Inl e \<Rightarrow> Some (Inl e)
         | Inr s1 \<Rightarrow> keyboard_loop cfg bs (emit KeyboardSleep s1))
      else Some (Inr s))"

text \<open>
  \<^verbatim>\<open>_handle_keyboard_shortcuts\<close>. Its first statement registers
  \<^verbatim>\<open>_handle_exit_signal\<close> for \<^verbatim>\<open>SIGINT\<close> with \<^verbatim>\<open>signal.signal\<close>; when that
  raises, the function is left before the loop and no event is ever read.
\<close>

definition handle_keyboard_shortcuts ::
  "bool \<Rightarrow> config \<Rightarrow> (key \<times> world \<times> nat) list list \<Rightarrow> looper \<Rightarrow> (error + looper) option" where
  "handle_keyboard_shortcuts on_main_thread cfg polls s =
     (case signal_signal on_main_thread of
        Inl e \<Rightarrow> Some (Inl e)
      | Inr u \<Rightarrow> keyboard_loop cfg polls s)"

text \<open>
  Lines 118 to 122 of \<^verbatim>\<open>__init__\<close>: with keyboard control enabled the handler is
  the target of a new \<^verbatim>\<open>threading.Thread\<close>, so it does not run on the main thread.
  The keyboard thread is running, and \<^verbatim>\<open>_handle_exit_signal\<close> is registered for
  \<^verbatim>\<open>SIGINT\<close>, when the thread was started and its \<^verbatim>\<open>signal.signal\<close> returned.
\<close>

definition keyboard_thread_running :: "config \<Rightarrow> bool" where
  "keyboard_thread_running cfg \<longleftrightarrow>
     keyboard_control cfg \<and> (case signal_signal False of Inl e \<Rightarrow> False | Inr u \<Rightarrow> True)"

text \<open>
  \<^verbatim>\<open>getattr(pygame, action, None)\<close> on the names of the key constants above; the
  handler calls it on the eight names of its list only.
\<close>

definition pygame_key :: "string \<Rightarrow> key option" where
  "pygame_key name =
     map_of
       [(''K_ESCAPE'', K_ESCAPE), (''K_SPACE'', K_SPACE), (''K_RIGHT'', K_RIGHT),
        (''K_LEFT'', K_LEFT), (''K_UP'', K_UP), (''K_DOWN'', K_DOWN), (''K_r'', K_r),
        (''K_s'', K_s), (''K_m'', K_m), (''K_k'', K_k), (''K_p'', K_p), (''K_b'', K_b),
        (''K_o'', K_o), (''K_i'', K_i), (''K_MINUS'', K_MINUS), (''K_PLUS'', K_PLUS),
        (''K_KP_PLUS'', K_KP_PLUS)] name"

text \<open>The list literal of \<^verbatim>\<open>_handle_gpio_control\<close>.\<close>

definition keyboard_actions :: "string list" where
  "keyboard_actions = [''K_ESCAPE'', ''K_k'', ''K_s'', ''K_SPACE'', ''K_p'', ''K_b'', ''K_o'', ''K_i'']"

text \<open>
  \<^verbatim>\<open>action in [...]\<close>: the JSON value is a string equal to one of the names.
\<close>

fun is_keyboard_action :: "json \<Rightarrow> bool" where
  "is_keyboard_action (JStr name) = (name \<in> set keyboard_actions)"
| "is_keyboard_action _ = False"

fun action_key :: "json \<Rightarrow> key option" where
  "action_key (JStr name) = pygame_key name"
| "action_key _ = None"

text \<open>
  \<^verbatim>\<open>_handle_gpio_control(pin)\<close>. \<open>is_playing\<close> is what \<^verbatim>\<open>self._player.is_playing()\<close>
  returns. \<^verbatim>\<open>self._pinMap[str(pin)]\<close> raises \<^verbatim>\<open>KeyError\<close> on a pin without entry.
\<close>

definition handle_gpio_control :: "config \<Rightarrow> bool \<Rightarrow> int \<Rightarrow> looper \<Rightarrow> error + looper" where
  "handle_gpio_control cfg is_playing pin s =
     (case pinMap cfg of
        None \<Rightarrow> Inr s
      | Some pm \<Rightarrow>
          if gpio_control_disabled_while_playback cfg \<and> is_playing then
            Inr (print_msg cfg GpioDisabled s)
          else
            (case map_of pm (str_int pin) of
               None \<Rightarrow> Inl KeyError
             | Some action \<Rightarrow>
                 let s1 = print_msg cfg (PinTriggered pin action) s in
                 if is_keyboard_action action then Inr (emit (PostKeyDown (action_key action)) s1)
                 else
                   (case playlist s1 of
                      None \<Rightarrow> Inl AttributeError
                    | Some pl \<Rightarrow>
                        Inr ((emit (PlayerStop (Some 3))
                               (emit (PlaylistSetNext action)
                                 (s1\<lparr>playlist := Some (set_next action pl)\<rparr>)))
                             \<lparr>playbackStopped := False\<rparr>))))"

subsection \<open>The main loop of run\<close>

text \<open>\<^verbatim>\<open>time.sleep\<close>: a negative argument raises \<^verbatim>\<open>ValueError\<close>.\<close>

definition sleep :: "int \<Rightarrow> looper \<Rightarrow> error + looper" where
  "sleep n s = (if n < 0 then Inl ValueError else Inr (emit (Sleep n) s))"

text \<open>
  What one iteration of the main loop observes: whether the Player reports the current
  item finished, the snapshot the rebuild sees, and the random draws of the (at most
  two) calls of \<^verbatim>\<open>_play_next\<close>.
\<close>

record tick =
  finished :: bool
  snapshot :: world
  draw1 :: nat
  draw2 :: nat

text \<open>\<^verbatim>\<open>new_playlist != self._playlist\<close>; a Playlist is never equal to \<^verbatim>\<open>None\<close>.\<close>

definition differs :: "playlist \<Rightarrow> playlist option \<Rightarrow> bool" where
  "differs new_playlist cur = (case cur of None \<Rightarrow> True | Some pl \<Rightarrow> \<not> playlist_eq new_playlist pl)"

text \<open>"Check if the current video has finished playing."\<close>

definition check_finished :: "config \<Rightarrow> tick \<Rightarrow> looper \<Rightarrow> error + looper" where
  "check_finished cfg t s = (if finished t then play_next cfg (draw1 t) s else Inr s)"

text \<open>"Check for any changes to the file system."\<close>

definition check_changes :: "config \<Rightarrow> tick \<Rightarrow> looper \<Rightarrow> error + looper" where
  "check_changes cfg t s =
     (case build_playlist cfg (snapshot t) s of
        Inl e \<Rightarrow> Inl e
      | Inr (new_playlist, s1) \<Rightarrow>
          if differs new_playlist (playlist s1) then
            play_next cfg (draw2 t) (print_msg cfg UpdatingPlaylist (s1\<lparr>playlist := Some new_playlist\<rparr>))
          else Inr s1)"

text \<open>The body of \<^verbatim>\<open>while self._running\<close>.\<close>

definition loop_body :: "config \<Rightarrow> tick \<Rightarrow> looper \<Rightarrow> error + looper" where
  "loop_body cfg t s =
     (if \<not> playbackStopped s then
        (case check_finished cfg t s of
           Inl e \<Rightarrow> Inl e
         | Inr s1 \<Rightarrow>
             (case check_changes cfg t s1 of
                Inl e \<Rightarrow> Inl e
              | Inr s2 \<Rightarrow> sleep (wait_time cfg) s2))
      else sleep 1 s)"

text \<open>
  "Clean up and exit": the statements of \<^verbatim>\<open>run\<close> after the loop.
  \<^verbatim>\<open>if self._pinMap\<close> is false for \<^verbatim>\<open>None\<close> and for an empty pin map.
\<close>

definition clean_up :: "config \<Rightarrow> looper \<Rightarrow> looper" where
  "clean_up cfg s =
     (let s1 = emit (PlayerStop None) s;
          s2 = (case pinMap cfg of
                  None \<Rightarrow> s1
                | Some pm \<Rightarrow> if pm \<noteq> [] then emit GpioCleanup s1 else s1)
      in emit PygameQuit s2)"

text \<open>
  What reaches the process while one iteration of the main loop runs: a key-down event
  of the escape key, the signal \<^verbatim>\<open>SIGINT\<close>.
\<close>

record arrival =
  escape :: bool
  sigint :: bool

text \<open>
  The loop and the exit path. The list holds what each iteration observes and what
  arrives while it runs; the loop may run forever, so a list used up while
  \<^verbatim>\<open>self._running\<close> still holds gives \<open>None\<close>. An exception of the body leaves
  \<^verbatim>\<open>run\<close> (\<open>Some (Inl e)\<close>), and the statements after the loop are not executed.
  \<open>kb\<close> says whether the keyboard thread is running and \<^verbatim>\<open>_handle_exit_signal\<close>
  is registered. If so, \<^verbatim>\<open>SIGINT\<close> runs the handler and the escape key takes the
  branch \<^verbatim>\<open>K_ESCAPE\<close>, both clearing \<^verbatim>\<open>self._running\<close>. If not, the escape key
  is read by nobody, and on \<^verbatim>\<open>SIGINT\<close> Python's default handler raises
  \<^verbatim>\<open>KeyboardInterrupt\<close> in the main thread.
\<close>

fun main_loop :: "config \<Rightarrow> bool \<Rightarrow> (tick \<times> arrival) list \<Rightarrow> looper \<Rightarrow> (error + looper) option" where
  "main_loop cfg kb [] s = (if running s then None else Some (Inr (clean_up cfg s)))"
| "main_loop cfg kb ((t, a) # ts) s =
     (if running s then
        (case loop_body cfg t s of
           Inl e \<Rightarrow> Some (Inl e)
         | Inr s1 \<Rightarrow>
             if sigint a then
               (if kb then main_loop cfg kb ts (handle_exit_signal s1)
                else Some (Inl KeyboardInterrupt))
             else if escape a \<and> kb then main_loop cfg kb ts (s1\<lparr>running := False\<rparr>)
             else main_loop cfg kb ts s1)
      else Some (Inr (clean_up cfg s)))"

text \<open>The loop of \<^verbatim>\<open>run\<close> in the process that \<^verbatim>\<open>__init__\<close> has set up.\<close>

definition run_loop :: "config \<Rightarrow> (tick \<times> arrival) list \<Rightarrow> looper \<Rightarrow> (error + looper) option" where
  "run_loop cfg ts s = main_loop cfg (keyboard_thread_running cfg) ts s"


section \<open>Notions of the specification\<close>

text \<open>
  The resolution rule of section 4.2 in the specification's words, to be compared with
  what \<open>build_playlist\<close> does: an absolute path is used directly, a relative path is
  searched across each search path in order.
\<close>

definition resolve_spec :: "world \<Rightarrow> string \<Rightarrow> string option" where
  "resolve_spec w pp =
     (if isabs pp then (if isfile w pp then Some pp else None)
      else find (isfile w) (map (\<lambda>p. join p pp) (search_paths w)))"

text \<open>
  The value the software-volume file under search path \<open>p\<close> offers: the search path is
  an existing directory, the file exists, its first line can be read and \<^verbatim>\<open>float\<close>
  gives a finite number. Likewise the line the hardware-volume file offers.
\<close>

definition sound_vol_offer :: "config \<Rightarrow> world \<Rightarrow> string \<Rightarrow> int option" where
  "sound_vol_offer cfg w p =
     (if path_exists w p \<and> isdir w p \<and> sound_vol_file cfg \<noteq> []
         \<and> path_exists w (rstrip_slash p @ ''/'' @ sound_vol_file cfg)
      then (case readline w (rstrip_slash p @ ''/'' @ sound_vol_file cfg) of
              Inl e \<Rightarrow> None
            | Inr line \<Rightarrow> (case py_float w line of Some (Finite v) \<Rightarrow> Some v | _ \<Rightarrow> None))
      else None)"

definition alsa_hw_vol_offer :: "config \<Rightarrow> world \<Rightarrow> string \<Rightarrow> string option" where
  "alsa_hw_vol_offer cfg w p =
     (if path_exists w p \<and> isdir w p \<and> alsa_hw_vol_file cfg \<noteq> []
         \<and> path_exists w (rstrip_slash p @ ''/'' @ alsa_hw_vol_file cfg)
      then (case readline w (rstrip_slash p @ ''/'' @ alsa_hw_vol_file cfg) of
              Inl e \<Rightarrow> None
            | Inr line \<Rightarrow> Some line)
      else None)"

section \<open>An example installation\<close>

text \<open>
  A concrete configuration, file system and state, on which the theorems below are
  instantiated. Two search paths: \<^verbatim>\<open>/mnt/usb0\<close> holds three movie files (one of them
  hidden), a text file and both volume files; \<^verbatim>\<open>/mnt/usb1/\<close> holds one movie, a
  playlist file and a software-volume file.
\<close>

definition demo_cfg :: config where
  "demo_cfg =
     \<lparr>console_output = True, is_random = False, wait_time = 5, keyboard_control = True,
      gpio_control_disabled_while_playback = True, playlist_path = None,
      alsa_hw_vol_file = ''alsa_hw_vol'', sound_vol_file = ''sound_volume'',
      extensions = [''avi'', ''mov'', ''mkv'', ''mp4'', ''m4v''],
      pinMap = Some [(''11'', JInt 1), (''13'', JStr ''K_SPACE''), (''15'', JStr ''K_RIGHT'')]\<rparr>"

definition demo_m3u :: playlist where
  "demo_m3u = Playlist [Movie ''/mnt/usb1/b.MP4'' ''b'' (RInt 1)]"

text \<open>
  Python's \<^verbatim>\<open>float\<close> on the first lines of the example's volume files:
  \<^verbatim>\<open>float('-600')\<close>, \<^verbatim>\<open>float('-1200')\<close>; \<^verbatim>\<open>float('loud')\<close> raises.
\<close>

definition demo_float :: "string \<Rightarrow> pyfloat option" where
  "demo_float s =
     (if s = ''-600'' then Some (Finite (- 600))
      else if s = ''-1200'' then Some (Finite (- 1200))
      else None)"

definition demo_world :: world where
  "demo_world =
     \<lparr>search_paths = [''/mnt/usb0'', ''/mnt/usb1/''],
      isfile = (\<lambda>p. p = ''/mnt/usb1/playlist.m3u''),
      path_exists = (\<lambda>p. p = ''/mnt/usb0'' \<or> p = ''/mnt/usb1/'' \<or> p = ''/mnt/usb0/alsa_hw_vol''
                        \<or> p = ''/mnt/usb0/sound_volume'' \<or> p = ''/mnt/usb1/sound_volume''
                        \<or> p = ''/mnt/usb1/playlist.m3u''),
      isdir = (\<lambda>p. p = ''/mnt/usb0'' \<or> p = ''/mnt/usb1/''),
      listdir = (\<lambda>p. if p = ''/mnt/usb0''
                      then [''intro_repeat_2x_repeat_5x.mp4'', ''.hidden.mp4'', ''notes.txt'',
                            ''alsa_hw_vol'', ''sound_volume'', ''a_repeat_3x.mp4'']
                      else if p = ''/mnt/usb1/'' then [''b.MP4'', ''playlist.m3u'', ''sound_volume'']
                      else []),
      readline = (\<lambda>p. if p = ''/mnt/usb0/alsa_hw_vol'' then Inr ''loud''
                       else if p = ''/mnt/usb0/sound_volume'' then Inr ''-600''
                       else if p = ''/mnt/usb1/sound_volume'' then Inr ''-1200''
                       else Inl OSError),
      build_playlist_m3u = (\<lambda>p. demo_m3u),
      py_float = demo_float\<rparr>"

definition movie_a :: movie where
  "movie_a = Movie ''/mnt/usb0/a_repeat_3x.mp4'' ''a_repeat_3x'' (RStr ''3'')"

definition movie_b :: movie where
  "movie_b = Movie ''/mnt/usb1/b.MP4'' ''b'' (RInt 1)"

definition movie_c :: movie where
  "movie_c = Movie ''/mnt/usb1/c.mp4'' ''c'' (RInt 1)"

definition demo_state :: looper where
  "demo_state =
     \<lparr>playlist = Some (Playlist [movie_a, movie_b, movie_c]), playbackStopped = False,
      running = True, sound_vol = 0, alsa_hw_vol = None, events = []\<rparr>"

definition empty_state :: looper where
  "empty_state = demo_state\<lparr>playlist := Some (Playlist [])\<rparr>"

definition demo_tick :: tick where
  "demo_tick = \<lparr>finished = True, snapshot = demo_world, draw1 = 0, draw2 = 0\<rparr>"


text \<open>What the full scan of the example finds, and the state after one loop iteration.\<close>

definition scanned :: playlist where
  "scanned =
     Playlist [movie_a,
               Movie ''/mnt/usb0/intro_repeat_2x_repeat_5x.mp4'' ''intro_repeat_2x_repeat_5x'' (RStr ''2''),
               movie_b]"

definition after_tick :: looper where
  "after_tick =
     demo_state
       \<lparr>playlist := Some (scanned\<lparr>cursor := 0\<rparr>), sound_vol := - 1200, alsa_hw_vol := Some ''loud'',
        events :=
          [Enter_play_next, PlaylistNext False,
           Print (PlayingNext ''/mnt/usb0/a_repeat_3x.mp4''),
           PlayerPlay ''/mnt/usb0/a_repeat_3x.mp4'' 0,
           Print UpdatingPlaylist, Enter_play_next, PlaylistNext False,
           Print (PlayingNext ''/mnt/usb0/a_repeat_3x.mp4''),
           PlayerPlay ''/mnt/usb0/a_repeat_3x.mp4'' (- 1200), Sleep 5]\<rparr>"

text \<open>An iteration during which the escape key is pressed, and one that gets \<^verbatim>\<open>SIGINT\<close>.\<close>

definition escape_pressed :: "tick \<times> arrival" where
  "escape_pressed = (demo_tick, \<lparr>escape = True, sigint = False\<rparr>)"

definition sigint_sent :: "tick \<times> arrival" where
  "sigint_sent = (demo_tick, \<lparr>escape = False, sigint = True\<rparr>)"

text \<open>The example with a playlist file configured: one that resolves, one that does not.\<close>

definition cfg_m3u :: config where
  "cfg_m3u = demo_cfg\<lparr>playlist_path := Some ''playlist.m3u''\<rparr>"

definition cfg_missing :: config where
  "cfg_missing = demo_cfg\<lparr>playlist_path := Some ''/media/playlist.m3u''\<rparr>"

definition quiet_tick :: tick where
  "quiet_tick = demo_tick\<lparr>finished := False\<rparr>"

text \<open>The example state after one and after two advancements on \<^verbatim>\<open>finished()\<close>.\<close>

definition played_once :: looper where
  "played_once =
     demo_state
       \<lparr>playlist := Some ((Playlist [movie_a, movie_b, movie_c])\<lparr>cursor := 0\<rparr>),
        events := [Enter_play_next, PlaylistNext False,
                   Print (PlayingNext ''/mnt/usb0/a_repeat_3x.mp4''),
                   PlayerPlay ''/mnt/usb0/a_repeat_3x.mp4'' 0]\<rparr>"

definition played_twice :: looper where
  "played_twice =
     demo_state
       \<lparr>playlist := Some ((Playlist [movie_a, movie_b, movie_c])\<lparr>cursor := 1\<rparr>),
        events := [Enter_play_next, PlaylistNext False,
                   Print (PlayingNext ''/mnt/usb0/a_repeat_3x.mp4''),
                   PlayerPlay ''/mnt/usb0/a_repeat_3x.mp4'' 0,
                   Enter_play_next, PlaylistNext False,
                   Print (PlayingNext ''/mnt/usb1/b.MP4''),
                   PlayerPlay ''/mnt/usb1/b.MP4'' 0]\<rparr>"

section \<open>Properties\<close>

subsection \<open>Evaluating the example\<close>

lemma str_int_15: "str_int 15 = ''15''"
  by code_simp

lemma str_int_11: "str_int 11 = ''11''"
  by code_simp

lemma scan_demo:
  "build_playlist_from_all_files demo_cfg demo_world demo_state =
     Inr (scanned, demo_state\<lparr>sound_vol := - 1200, alsa_hw_vol := Some ''loud''\<rparr>)"
  by code_simp

lemma check_finished_demo: "check_finished demo_cfg demo_tick demo_state = Inr played_once"
  by code_simp

lemma check_finished_quiet: "check_finished demo_cfg quiet_tick after_tick = Inr after_tick"
  by code_simp

lemma build_playlist_played_once:
  "build_playlist demo_cfg (snapshot demo_tick) played_once =
     Inr (scanned, played_once\<lparr>sound_vol := - 1200, alsa_hw_vol := Some ''loud''\<rparr>)"
  by code_simp

lemma build_playlist_quiet:
  "build_playlist demo_cfg (snapshot quiet_tick) after_tick = Inr (scanned, after_tick)"
  by code_simp

lemma scanned_differs:
  "\<not> playlist_eq scanned ((Playlist [movie_a, movie_b, movie_c])\<lparr>cursor := 0\<rparr>)"
  by code_simp

lemma scanned_same: "playlist_eq scanned (scanned\<lparr>cursor := 0\<rparr>)"
  by code_simp

lemma resolve_spec_m3u: "resolve_spec demo_world ''playlist.m3u'' = Some ''/mnt/usb1/playlist.m3u''"
  by code_simp

lemma resolve_spec_missing: "resolve_spec demo_world ''/media/playlist.m3u'' = None"
  by code_simp

lemma splitext_m3u: "snd (splitext ''/mnt/usb1/playlist.m3u'') = ''.m3u''"
  by code_simp

lemma sound_offers_demo:
  "List.map_filter (sound_vol_offer demo_cfg demo_world) (search_paths demo_world) = [- 600, - 1200]"
  by code_simp

lemma alsa_offers_demo:
  "List.map_filter (alsa_hw_vol_offer demo_cfg demo_world) (search_paths demo_world) = [''loud'']"
  by code_simp

lemma intro_in_scanned:
  "\<lparr>path = ''/mnt/usb0/intro_repeat_2x_repeat_5x.mp4'', title = ''intro_repeat_2x_repeat_5x'', repeat = 2\<rparr>
     \<in> set (movies scanned)"
  by code_simp

subsection \<open>What a rebuild leaves alone\<close>

lemma read_alsa_hw_vol_fields:
  "read_alsa_hw_vol cfg w p s = Inr s' \<Longrightarrow>
     playlist s' = playlist s \<and> playbackStopped s' = playbackStopped s \<and> running s' = running s
     \<and> events s' = events s \<and> sound_vol s' = sound_vol s"
  by (auto simp add: read_alsa_hw_vol_def Let_def split: if_splits sum.splits)

lemma read_sound_vol_fields:
  "read_sound_vol cfg w p s = Inr s' \<Longrightarrow>
     playlist s' = playlist s \<and> playbackStopped s' = playbackStopped s \<and> running s' = running s
     \<and> events s' = events s \<and> alsa_hw_vol s' = alsa_hw_vol s"
  by (auto simp add: read_sound_vol_def Let_def split: if_splits sum.splits)

lemma scan_paths_fields:
  "scan_paths cfg w ps ms s = Inr (ms', s') \<Longrightarrow>
     playlist s' = playlist s \<and> playbackStopped s' = playbackStopped s \<and> running s' = running s
     \<and> events s' = events s"
proof (induction ps arbitrary: ms s)
  case Nil
  then show ?case by simp
next
  case (Cons p ps)
  show ?case
  proof (cases "\<not> path_exists w p \<or> \<not> isdir w p")
    case True
    with Cons show ?thesis by simp
  next
    case False
    with Cons.prems obtain ms1 s1 s2 where
      a: "read_alsa_hw_vol cfg w p s = Inr s1" and
      b: "read_sound_vol cfg w p s1 = Inr s2" and
      c: "scan_paths cfg w ps ms1 s2 = Inr (ms', s')"
      by (auto split: sum.splits)
    from read_alsa_hw_vol_fields [OF a] read_sound_vol_fields [OF b] Cons.IH [OF c]
    show ?thesis by simp
  qed
qed

lemma build_all_fields:
  "build_playlist_from_all_files cfg w s = Inr (pl, s') \<Longrightarrow>
     playlist s' = playlist s \<and> playbackStopped s' = playbackStopped s \<and> running s' = running s
     \<and> events s' = events s"
  by (auto simp add: build_playlist_from_all_files_def split: sum.splits dest: scan_paths_fields)

lemma print_msg_fields:
  "playlist (print_msg cfg m s) = playlist s \<and> playbackStopped (print_msg cfg m s) = playbackStopped s
   \<and> running (print_msg cfg m s) = running s \<and> sound_vol (print_msg cfg m s) = sound_vol s
   \<and> alsa_hw_vol (print_msg cfg m s) = alsa_hw_vol s
   \<and> count_list (events (print_msg cfg m s)) Enter_play_next = count_list (events s) Enter_play_next"
  by (simp add: print_msg_def emit_def)

lemma build_by_extension_fields:
  assumes "build_by_extension cfg w pp s = Inr (pl, s')"
  shows "playlist s' = playlist s \<and> playbackStopped s' = playbackStopped s \<and> running s' = running s
         \<and> count_list (events s') Enter_play_next = count_list (events s) Enter_play_next"
  using assms
  by (auto simp add: build_by_extension_def Let_def print_msg_fields split: if_splits
           dest!: build_all_fields)

lemma build_playlist_fields:
  assumes "build_playlist cfg w s = Inr (pl, s')"
  shows "playlist s' = playlist s \<and> playbackStopped s' = playbackStopped s \<and> running s' = running s
         \<and> count_list (events s') Enter_play_next = count_list (events s) Enter_play_next"
  using assms
  by (auto simp add: build_playlist_def Let_def print_msg_fields split: if_splits option.splits
           dest!: build_all_fields build_by_extension_fields)

lemma next_movie_nonempty:
  "plength pl \<noteq> 0 \<Longrightarrow> \<exists>m pl'. next_movie b r pl = (Some m, pl') \<and> movies pl' = movies pl"
  by (simp add: next_movie_def Let_def)

lemma play_next_fields:
  assumes "playlist s = Some pl"
  shows "\<exists>s' pl'. play_next cfg r s = Inr s' \<and> playlist s' = Some pl' \<and> movies pl' = movies pl
           \<and> playbackStopped s' = playbackStopped s \<and> running s' = running s
           \<and> count_list (events s') Enter_play_next = count_list (events s) Enter_play_next + 1"
proof (cases "plength pl = 0")
  case True
  with assms show ?thesis by (simp add: play_next_def emit_def)
next
  case False
  from next_movie_nonempty [OF False, of "is_random cfg" r] obtain m pl'
    where "next_movie (is_random cfg) r pl = (Some m, pl')" and "movies pl' = movies pl"
    by blast
  with assms False show ?thesis
    by (simp add: play_next_def emit_def print_msg_def)
qed

subsection \<open>What a loop iteration leaves alone\<close>

lemma play_next_keeps_flags:
  "play_next cfg r s = Inr s' \<Longrightarrow> playbackStopped s' = playbackStopped s \<and> running s' = running s"
  by (auto simp add: play_next_def emit_def print_msg_def Let_def
           split: option.splits if_splits prod.splits)

lemma check_finished_keeps_flags:
  "check_finished cfg t s = Inr s' \<Longrightarrow> playbackStopped s' = playbackStopped s \<and> running s' = running s"
  by (auto simp add: check_finished_def split: if_splits dest: play_next_keeps_flags)

lemma check_changes_keeps_flags:
  assumes "check_changes cfg t s = Inr s'"
  shows "playbackStopped s' = playbackStopped s \<and> running s' = running s"
proof -
  from assms obtain new_playlist s1 where
    b: "build_playlist cfg (snapshot t) s = Inr (new_playlist, s1)"
    by (auto simp add: check_changes_def split: sum.splits)
  from build_playlist_fields [OF b]
  have f: "playbackStopped s1 = playbackStopped s" "running s1 = running s"
    by simp_all
  show ?thesis
  proof (cases "differs new_playlist (playlist s1)")
    case True
    with assms b
    have "play_next cfg (draw2 t) (print_msg cfg UpdatingPlaylist (s1\<lparr>playlist := Some new_playlist\<rparr>)) = Inr s'"
      by (simp add: check_changes_def)
    from play_next_keeps_flags [OF this] f show ?thesis
      by (simp add: print_msg_def emit_def)
  next
    case False
    with assms b have "s' = s1"
      by (simp add: check_changes_def)
    with f show ?thesis by simp
  qed
qed

lemma loop_body_keeps_flags:
  assumes "loop_body cfg t s = Inr s'"
  shows "playbackStopped s' = playbackStopped s \<and> running s' = running s"
proof (cases "playbackStopped s")
  case True
  with assms show ?thesis
    by (auto simp add: loop_body_def sleep_def emit_def split: if_splits)
next
  case False
  with assms obtain s1 s2 where
    a: "check_finished cfg t s = Inr s1" and
    b: "check_changes cfg t s1 = Inr s2" and
    c: "sleep (wait_time cfg) s2 = Inr s'"
    by (auto simp add: loop_body_def split: sum.splits)
  from c have "playbackStopped s' = playbackStopped s2 \<and> running s' = running s2"
    by (auto simp add: sleep_def emit_def split: if_splits)
  with check_finished_keeps_flags [OF a] check_changes_keeps_flags [OF b] show ?thesis
    by simp
qed

subsection \<open>Watching for changes\<close>

text \<open>
  Claim C1. In an iteration of the main loop with playback not stopped, after the check
  for a finished item, the Playlist is rebuilt once and compared with the current one, and
  the iteration ends with one \<^verbatim>\<open>time.sleep\<close> of the wait interval. When the two
  are equal the state is the one the rebuild left: the current Playlist is kept and
  \<^verbatim>\<open>_play_next\<close> is not called. When they differ the current Playlist is replaced
  by the rebuilt one and \<^verbatim>\<open>_play_next\<close> is called exactly once.
\<close>

theorem rebuild_restarts_iff_changed:
  assumes "\<not> playbackStopped s0"
    and "check_finished cfg t s0 = Inr s"
    and "build_playlist cfg (snapshot t) s = Inr (new_playlist, s1)"
    and "playlist s = Some cur"
  shows "\<exists>s2. check_changes cfg t s = Inr s2 \<and> loop_body cfg t s0 = sleep (wait_time cfg) s2 \<and>
     (if playlist_eq new_playlist cur
      then s2 = s1 \<and> playlist s2 = Some cur
           \<and> count_list (events s2) Enter_play_next = count_list (events s) Enter_play_next
      else (\<exists>pl'. playlist s2 = Some pl' \<and> movies pl' = movies new_playlist)
           \<and> count_list (events s2) Enter_play_next = count_list (events s) Enter_play_next + 1)"
proof -
  from build_playlist_fields [OF assms(3)] assms(4)
  have f: "playlist s1 = Some cur"
    "count_list (events s1) Enter_play_next = count_list (events s) Enter_play_next"
    by simp_all
  have body: "\<And>s2. check_changes cfg t s = Inr s2 \<Longrightarrow> loop_body cfg t s0 = sleep (wait_time cfg) s2"
    using assms(1,2) by (simp add: loop_body_def)
  show ?thesis
  proof (cases "playlist_eq new_playlist cur")
    case True
    with assms(3) f have "check_changes cfg t s = Inr s1"
      by (simp add: check_changes_def differs_def)
    with True f body show ?thesis
      by simp
  next
    case False
    let ?s = "print_msg cfg UpdatingPlaylist (s1\<lparr>playlist := Some new_playlist\<rparr>)"
    have p: "playlist ?s = Some new_playlist"
      by (simp add: print_msg_def emit_def)
    have c: "count_list (events ?s) Enter_play_next = count_list (events s) Enter_play_next"
      using f(2) by (simp add: print_msg_def emit_def)
    from play_next_fields [OF p, of cfg "draw2 t"] obtain s' pl' where
      s': "play_next cfg (draw2 t) ?s = Inr s'" "playlist s' = Some pl'" "movies pl' = movies new_playlist"
      "count_list (events s') Enter_play_next = count_list (events ?s) Enter_play_next + 1"
      by blast
    with False assms(3) f have "check_changes cfg t s = Inr s'"
      by (simp add: check_changes_def differs_def)
    with False s' c body show ?thesis
      by simp
  qed
qed

theorem rebuild_restarts_iff_changed_witness:
  "\<not> playbackStopped demo_state
   \<and> check_finished demo_cfg demo_tick demo_state = Inr played_once
   \<and> build_playlist demo_cfg (snapshot demo_tick) played_once =
       Inr (scanned, played_once\<lparr>sound_vol := - 1200, alsa_hw_vol := Some ''loud''\<rparr>)
   \<and> playlist played_once = Some ((Playlist [movie_a, movie_b, movie_c])\<lparr>cursor := 0\<rparr>)
   \<and> \<not> playlist_eq scanned ((Playlist [movie_a, movie_b, movie_c])\<lparr>cursor := 0\<rparr>)
   \<and> (\<exists>s2. check_changes demo_cfg demo_tick played_once = Inr s2
          \<and> loop_body demo_cfg demo_tick demo_state = sleep 5 s2
          \<and> (\<exists>pl'. playlist s2 = Some pl' \<and> movies pl' = movies scanned)
          \<and> count_list (events s2) Enter_play_next = 2)
   \<and> \<not> playbackStopped after_tick
   \<and> check_finished demo_cfg quiet_tick after_tick = Inr after_tick
   \<and> build_playlist demo_cfg (snapshot quiet_tick) after_tick = Inr (scanned, after_tick)
   \<and> playlist after_tick = Some (scanned\<lparr>cursor := 0\<rparr>)
   \<and> playlist_eq scanned (scanned\<lparr>cursor := 0\<rparr>)
   \<and> check_changes demo_cfg quiet_tick after_tick = Inr after_tick
   \<and> loop_body demo_cfg quiet_tick after_tick = sleep 5 after_tick"
proof -
  have h1: "\<not> playbackStopped demo_state" "\<not> playbackStopped after_tick"
    by (simp_all add: demo_state_def after_tick_def)
  have h4: "playlist played_once = Some ((Playlist [movie_a, movie_b, movie_c])\<lparr>cursor := 0\<rparr>)"
    "playlist after_tick = Some (scanned\<lparr>cursor := 0\<rparr>)"
    by (simp_all add: played_once_def after_tick_def)
  have ev: "count_list (events played_once) Enter_play_next = 1" "wait_time demo_cfg = 5"
    by (simp_all add: played_once_def demo_cfg_def)
  show ?thesis
    using rebuild_restarts_iff_changed [OF h1(1) check_finished_demo build_playlist_played_once h4(1)]
      rebuild_restarts_iff_changed [OF h1(2) check_finished_quiet build_playlist_quiet h4(2)]
      check_finished_demo build_playlist_played_once check_finished_quiet build_playlist_quiet
      h1 h4 scanned_differs scanned_same ev
    by (simp add: numeral_2_eq_2)
qed

subsection \<open>Advancing when an item has finished\<close>

text \<open>
  Claim C2, as amended. The Controller holds no replay count: the state \<open>looper\<close> has
  no such field, and an advancement triggered by \<^verbatim>\<open>finished()\<close> asks the Playlist for
  its next movie once and plays the path it gets once. With the Playlist of the
  specification in sequential order and no pending index, every such advancement moves
  the cursor on by one, circularly, whatever the repeat count of the movie that finished.
\<close>

theorem finished_advances_whatever_repeat:
  assumes "playlist s = Some pl" and "plength pl \<noteq> 0" and "pending pl = None"
    and "\<not> is_random cfg" and "finished t"
  shows "check_finished cfg t s =
     Inr (s\<lparr>playlist := Some (pl\<lparr>cursor := (cursor pl + 1) mod int (plength pl)\<rparr>),
           events := events s @ [Enter_play_next, PlaylistNext False]
             @ (if console_output cfg
                then [Print (PlayingNext (path (movies pl ! nat ((cursor pl + 1) mod int (plength pl)))))]
                else [])
             @ [PlayerPlay (path (movies pl ! nat ((cursor pl + 1) mod int (plength pl)))) (sound_vol s)]\<rparr>)"
proof -
  have "pl\<lparr>cursor := (cursor pl + 1) mod int (plength pl), pending := None\<rparr>
      = pl\<lparr>cursor := (cursor pl + 1) mod int (plength pl)\<rparr>"
    using assms(3) by simp
  with assms show ?thesis
    by (simp add: check_finished_def play_next_def next_movie_def emit_def print_msg_def Let_def)
qed

theorem finished_advances_whatever_repeat_witness:
  "playlist played_once = Some ((Playlist [movie_a, movie_b, movie_c])\<lparr>cursor := 0\<rparr>)
   \<and> plength ((Playlist [movie_a, movie_b, movie_c])\<lparr>cursor := 0\<rparr>) = 3
   \<and> pending ((Playlist [movie_a, movie_b, movie_c])\<lparr>cursor := 0\<rparr>) = None
   \<and> \<not> is_random demo_cfg \<and> finished demo_tick
   \<and> repeat movie_a = 3
   \<and> check_finished demo_cfg demo_tick played_once = Inr played_twice"
proof -
  have h1: "playlist played_once = Some ((Playlist [movie_a, movie_b, movie_c])\<lparr>cursor := 0\<rparr>)"
    by (simp add: played_once_def)
  have h2: "plength ((Playlist [movie_a, movie_b, movie_c])\<lparr>cursor := 0\<rparr>) \<noteq> 0"
    by (simp add: plength_def Playlist_def)
  have h3: "pending ((Playlist [movie_a, movie_b, movie_c])\<lparr>cursor := 0\<rparr>) = None"
    by (simp add: Playlist_def)
  have h4: "\<not> is_random demo_cfg"
    by (simp add: demo_cfg_def)
  have h5: "finished demo_tick"
    by (simp add: demo_tick_def)
  have r: "repeat movie_a = 3"
    by code_simp
  have l: "plength ((Playlist [movie_a, movie_b, movie_c])\<lparr>cursor := 0\<rparr>) = 3"
    by (simp add: plength_def Playlist_def)
  show ?thesis
    using finished_advances_whatever_repeat [OF h1 h2 h3 h4 h5] h1 h3 h4 h5 r l
    by (simp add: played_once_def played_twice_def demo_state_def demo_cfg_def Playlist_def
          movie_b_def Movie_def)
qed

text \<open>
  The claim as stated fails: the first movie of the example has repeat count 3, it is
  played once, and the second advancement already plays the second movie.
\<close>

theorem repeat_not_replayed_counterexample:
  "movies (Playlist [movie_a, movie_b, movie_c]) ! 0 =
      \<lparr>path = ''/mnt/usb0/a_repeat_3x.mp4'', title = ''a_repeat_3x'', repeat = 3\<rparr>
   \<and> playlist demo_state = Some (Playlist [movie_a, movie_b, movie_c])
   \<and> check_finished demo_cfg demo_tick demo_state = Inr played_once
   \<and> check_finished demo_cfg demo_tick played_once = Inr played_twice
   \<and> events played_twice =
       [Enter_play_next, PlaylistNext False, Print (PlayingNext ''/mnt/usb0/a_repeat_3x.mp4''),
        PlayerPlay ''/mnt/usb0/a_repeat_3x.mp4'' 0,
        Enter_play_next, PlaylistNext False, Print (PlayingNext ''/mnt/usb1/b.MP4''),
        PlayerPlay ''/mnt/usb1/b.MP4'' 0]"
  by code_simp

subsection \<open>Resolving a configured playlist file\<close>

lemma resolve_relative_find:
  "resolve_relative w pp ps = find (isfile w) (map (\<lambda>p. join p pp) ps)"
  by (induction ps) (simp_all add: Let_def)

lemma build_all_no_paths:
  "search_paths w = [] \<Longrightarrow> build_playlist_from_all_files cfg w s = Inr (Playlist [], s)"
  by (simp add: build_playlist_from_all_files_def)

lemma emit_prints:
  "print_msg cfg m s = s\<lparr>events := events s @ map Print (if console_output cfg then [m] else [])\<rparr>"
  by (simp add: print_msg_def emit_def)

text \<open>
  Claim C3. With a playlist-file path configured, \<^verbatim>\<open>_build_playlist\<close> resolves it as
  the specification says (an absolute path directly, a relative path against each search
  path in order, the first hit winning). A path that does not resolve, or a resolved
  path whose extension is neither \<^verbatim>\<open>.m3u\<close> nor \<^verbatim>\<open>.m3u8\<close>, gives exactly what the
  full directory scan gives, playlist and volumes; only informational messages are
  printed before the scan starts. (With no search path at all the code returns the
  empty Playlist at once, which is what the scan returns then.)
\<close>

theorem build_playlist_resolution:
  assumes "playlist_path cfg = Some pp" and "pp \<noteq> []"
  shows "\<exists>msgs. build_playlist cfg w s =
     (case resolve_spec w pp of
        None \<Rightarrow> build_playlist_from_all_files cfg w (s\<lparr>events := events s @ map Print msgs\<rparr>)
      | Some f \<Rightarrow>
          if snd (splitext f) = ''.m3u'' \<or> snd (splitext f) = ''.m3u8''
          then Inr (build_playlist_m3u w f, s\<lparr>events := events s @ map Print msgs\<rparr>)
          else build_playlist_from_all_files cfg w (s\<lparr>events := events s @ map Print msgs\<rparr>))"
proof -
  let ?R = "\<lambda>msgs. (case resolve_spec w pp of
        None \<Rightarrow> build_playlist_from_all_files cfg w (s\<lparr>events := events s @ map Print msgs\<rparr>)
      | Some f \<Rightarrow>
          if snd (splitext f) = ''.m3u'' \<or> snd (splitext f) = ''.m3u8''
          then Inr (build_playlist_m3u w f, s\<lparr>events := events s @ map Print msgs\<rparr>)
          else build_playlist_from_all_files cfg w (s\<lparr>events := events s @ map Print msgs\<rparr>))"
  have "\<exists>msgs. build_playlist cfg w s = ?R msgs"
  proof (cases "isabs pp")
    case True
    show ?thesis
    proof (cases "isfile w pp")
      case False
      with True assms
      have "build_playlist cfg w s = ?R (if console_output cfg then [PathMissing pp] else [])"
        by (simp add: build_playlist_def emit_prints resolve_spec_def)
      then show ?thesis by (rule exI)
    next
      case f: True
      with True assms
      have "build_playlist cfg w s =
              ?R (if snd (splitext pp) = ''.m3u'' \<or> snd (splitext pp) = ''.m3u8'' \<or> \<not> console_output cfg
                  then [] else [UnrecognizedFormat (snd (splitext pp))])"
        by (simp add: build_playlist_def build_by_extension_def emit_prints resolve_spec_def Let_def)
      then show ?thesis by (rule exI)
    qed
  next
    case rel: False
    show ?thesis
    proof (cases "search_paths w = []")
      case True
      with rel assms have "build_playlist cfg w s = ?R []"
        by (simp add: build_playlist_def build_all_no_paths resolve_spec_def)
      then show ?thesis by (rule exI)
    next
      case ne: False
      show ?thesis
      proof (cases "resolve_relative w pp (search_paths w)")
        case None
        with rel ne assms
        have "build_playlist cfg w s = ?R (if console_output cfg then [PathUnresolved pp] else [])"
          by (simp add: build_playlist_def emit_prints resolve_spec_def resolve_relative_find)
        then show ?thesis by (rule exI)
      next
        case (Some f)
        with rel ne assms
        have "build_playlist cfg w s =
                ?R (if \<not> console_output cfg then []
                    else if snd (splitext f) = ''.m3u'' \<or> snd (splitext f) = ''.m3u8'' then [PathResolved f]
                    else [PathResolved f, UnrecognizedFormat (snd (splitext f))])"
          by (simp add: build_playlist_def build_by_extension_def emit_prints resolve_spec_def
                resolve_relative_find [symmetric] Let_def)
        then show ?thesis by (rule exI)
      qed
    qed
  qed
  then show ?thesis .
qed

theorem build_playlist_resolution_witness:
  "playlist_path cfg_m3u = Some ''playlist.m3u''
   \<and> resolve_spec demo_world ''playlist.m3u'' = Some ''/mnt/usb1/playlist.m3u''
   \<and> (\<exists>msgs. build_playlist cfg_m3u demo_world demo_state =
               Inr (demo_m3u, demo_state\<lparr>events := map Print msgs\<rparr>))
   \<and> playlist_path cfg_missing = Some ''/media/playlist.m3u''
   \<and> resolve_spec demo_world ''/media/playlist.m3u'' = None
   \<and> (\<exists>msgs. build_playlist cfg_missing demo_world demo_state =
               build_playlist_from_all_files cfg_missing demo_world (demo_state\<lparr>events := map Print msgs\<rparr>))"
proof -
  have h1: "playlist_path cfg_m3u = Some ''playlist.m3u''"
    by (simp add: cfg_m3u_def)
  have h2: "''playlist.m3u'' \<noteq> []"
    by simp
  have h3: "playlist_path cfg_missing = Some ''/media/playlist.m3u''"
    by (simp add: cfg_missing_def)
  have h4: "''/media/playlist.m3u'' \<noteq> []"
    by simp
  have ev: "events demo_state = []" "build_playlist_m3u demo_world ''/mnt/usb1/playlist.m3u'' = demo_m3u"
    by (simp_all add: demo_state_def demo_world_def)
  show ?thesis
    using build_playlist_resolution [OF h1 h2, of demo_world demo_state]
      build_playlist_resolution [OF h3 h4, of demo_world demo_state]
      h1 h3 ev resolve_spec_m3u resolve_spec_missing splitext_m3u
    by simp
qed

subsection \<open>The sidecar volume files\<close>

lemma read_alsa_hw_vol_offer:
  "path_exists w p \<Longrightarrow> isdir w p \<Longrightarrow> read_alsa_hw_vol cfg w p s = Inr s' \<Longrightarrow>
     alsa_hw_vol s' = (case alsa_hw_vol_offer cfg w p of None \<Rightarrow> alsa_hw_vol s | Some l \<Rightarrow> Some l)"
  by (auto simp add: read_alsa_hw_vol_def alsa_hw_vol_offer_def Let_def split: if_splits sum.splits)

lemma read_sound_vol_offer:
  "path_exists w p \<Longrightarrow> isdir w p \<Longrightarrow> read_sound_vol cfg w p s = Inr s' \<Longrightarrow>
     sound_vol s' = (case sound_vol_offer cfg w p of None \<Rightarrow> sound_vol s | Some v \<Rightarrow> v)"
  by (auto simp add: read_sound_vol_def sound_vol_offer_def is_number_def int_float_def Let_def
           split: if_splits sum.splits option.splits pyfloat.splits)

lemma offers_skipped:
  "\<not> path_exists w p \<or> \<not> isdir w p \<Longrightarrow> sound_vol_offer cfg w p = None \<and> alsa_hw_vol_offer cfg w p = None"
  by (auto simp add: sound_vol_offer_def alsa_hw_vol_offer_def)

lemma scan_paths_volumes:
  "scan_paths cfg w ps ms s = Inr (ms', s') \<Longrightarrow>
     sound_vol s' = last (sound_vol s # List.map_filter (sound_vol_offer cfg w) ps)
     \<and> alsa_hw_vol s' = last (alsa_hw_vol s # map Some (List.map_filter (alsa_hw_vol_offer cfg w) ps))"
proof (induction ps arbitrary: ms s)
  case Nil
  then show ?case by (simp add: List.map_filter_simps)
next
  case (Cons p ps)
  show ?case
  proof (cases "\<not> path_exists w p \<or> \<not> isdir w p")
    case True
    with Cons.prems have "scan_paths cfg w ps ms s = Inr (ms', s')" by simp
    from Cons.IH [OF this] offers_skipped [OF True, of cfg] show ?thesis
      by (simp add: List.map_filter_simps)
  next
    case False
    with Cons.prems obtain ms1 s1 s2 where
      a: "read_alsa_hw_vol cfg w p s = Inr s1" and
      b: "read_sound_vol cfg w p s1 = Inr s2" and
      c: "scan_paths cfg w ps ms1 s2 = Inr (ms', s')"
      by (auto split: sum.splits)
    from False have e: "path_exists w p" "isdir w p" by simp_all
    from read_alsa_hw_vol_offer [OF e a] read_alsa_hw_vol_fields [OF a]
      read_sound_vol_offer [OF e b] read_sound_vol_fields [OF b] Cons.IH [OF c]
    show ?thesis
      by (simp add: List.map_filter_simps split: option.splits)
  qed
qed

text \<open>
  Claim C8, as amended. When the full scan returns, each of the two volumes is the value
  offered by the last search path (in search order) that offers one, and the prior value
  when none does. The hardware-volume line is taken as it is, numeric or not; the
  software volume is taken from a line that \<^verbatim>\<open>float\<close> accepts with a finite value.
\<close>

theorem sidecar_volumes_last_wins:
  assumes "build_playlist_from_all_files cfg w s = Inr (pl, s')"
  shows "sound_vol s' = last (sound_vol s # List.map_filter (sound_vol_offer cfg w) (search_paths w))
     \<and> alsa_hw_vol s' = last (alsa_hw_vol s # map Some (List.map_filter (alsa_hw_vol_offer cfg w) (search_paths w)))"
  using assms
  by (auto simp add: build_playlist_from_all_files_def split: sum.splits dest: scan_paths_volumes)

theorem sidecar_volumes_last_wins_witness:
  "build_playlist_from_all_files demo_cfg demo_world demo_state =
     Inr (scanned, demo_state\<lparr>sound_vol := - 1200, alsa_hw_vol := Some ''loud''\<rparr>)
   \<and> List.map_filter (sound_vol_offer demo_cfg demo_world) (search_paths demo_world) = [- 600, - 1200]
   \<and> List.map_filter (alsa_hw_vol_offer demo_cfg demo_world) (search_paths demo_world) = [''loud'']
   \<and> sound_vol (demo_state\<lparr>sound_vol := - 1200, alsa_hw_vol := Some ''loud''\<rparr>)
       = last (sound_vol demo_state # [- 600, - 1200])
   \<and> alsa_hw_vol (demo_state\<lparr>sound_vol := - 1200, alsa_hw_vol := Some ''loud''\<rparr>)
       = last (alsa_hw_vol demo_state # map Some [''loud''])"
  using sidecar_volumes_last_wins [OF scan_demo] scan_demo sound_offers_demo alsa_offers_demo
  by simp

text \<open>
  The claim as stated fails: in the example the first search path offers the software
  volume -600 and the second -1200, and the scan ends with -1200; the hardware-volume
  file holds the line \<^verbatim>\<open>loud\<close>, not a number, and the scan stores it.
\<close>

theorem sidecar_first_value_counterexample:
  "search_paths demo_world = [''/mnt/usb0'', ''/mnt/usb1/'']
   \<and> sound_vol_offer demo_cfg demo_world ''/mnt/usb0'' = Some (- 600)
   \<and> sound_vol_offer demo_cfg demo_world ''/mnt/usb1/'' = Some (- 1200)
   \<and> readline demo_world ''/mnt/usb0/alsa_hw_vol'' = Inr ''loud''
   \<and> is_number demo_world ''loud'' = False
   \<and> build_playlist_from_all_files demo_cfg demo_world demo_state =
       Inr (scanned, demo_state\<lparr>sound_vol := - 1200, alsa_hw_vol := Some ''loud''\<rparr>)"
  by code_simp

subsection \<open>Repeat counts of scanned files\<close>

lemma Movie_built:
  "Movie p t (case r of Some g \<Rightarrow> RStr g | None \<Rightarrow> RInt 1) =
     \<lparr>path = p, title = t, repeat = (case r of None \<Rightarrow> 1 | Some g \<Rightarrow> max 1 (decimal g))\<rparr>"
  by (cases r) (simp_all add: Movie_def)

lemma scan_dir_movies:
  "scan_dir cfg p xs ms = Inr ms' \<Longrightarrow> m \<in> set ms' \<Longrightarrow>
     m \<in> set ms \<or> (\<exists>x. x \<in> set xs \<and> m = \<lparr>path = rstrip_slash p @ ''/'' @ x, title = fst (splitext x),
                                     repeat = (case re_search_repeat x of None \<Rightarrow> 1 | Some g \<Rightarrow> max 1 (decimal g))\<rparr>)"
proof (induction xs arbitrary: ms)
  case Nil
  then show ?case by simp
next
  case (Cons x xs)
  show ?case
  proof (cases x)
    case Nil
    with Cons.prems show ?thesis by simp
  next
    case xc: (Cons c cs)
    show ?thesis
    proof (cases "c \<noteq> CHR ''.'' \<and> re_search_ext (extensions cfg) x")
      case True
      let ?m = "Movie (rstrip_slash p @ ''/'' @ x) (fst (splitext x))
                  (case re_search_repeat x of Some g \<Rightarrow> RStr g | None \<Rightarrow> RInt 1)"
      from True xc Cons.prems(1) have "scan_dir cfg p xs (ms @ [?m]) = Inr ms'"
        by (simp add: Let_def)
      from Cons.IH [OF this Cons.prems(2)]
      have "m \<in> set ms \<or> m = ?m \<or> (\<exists>x. x \<in> set xs \<and> m = \<lparr>path = rstrip_slash p @ ''/'' @ x, title = fst (splitext x),
                                     repeat = (case re_search_repeat x of None \<Rightarrow> 1 | Some g \<Rightarrow> max 1 (decimal g))\<rparr>)"
        by auto
      then show ?thesis
        unfolding Movie_built by (metis list.set_intros)
    next
      case False
      with xc Cons.prems(1) have "scan_dir cfg p xs ms = Inr ms'"
        by auto
      from Cons.IH [OF this Cons.prems(2)] show ?thesis
        by (metis list.set_intros(2))
    qed
  qed
qed

lemma scan_paths_movies:
  "scan_paths cfg w ps ms s = Inr (ms', s') \<Longrightarrow> m \<in> set ms' \<Longrightarrow>
     m \<in> set ms \<or> (\<exists>p x. p \<in> set ps \<and> x \<in> set (listdir w p)
        \<and> m = \<lparr>path = rstrip_slash p @ ''/'' @ x, title = fst (splitext x),
               repeat = (case re_search_repeat x of None \<Rightarrow> 1 | Some g \<Rightarrow> max 1 (decimal g))\<rparr>)"
proof (induction ps arbitrary: ms s)
  case Nil
  then show ?case by simp
next
  case (Cons p ps)
  show ?case
  proof (cases "\<not> path_exists w p \<or> \<not> isdir w p")
    case True
    with Cons.prems have "scan_paths cfg w ps ms s = Inr (ms', s')" by simp
    from Cons.IH [OF this Cons.prems(2)] show ?thesis
      by (metis list.set_intros(2))
  next
    case False
    with Cons.prems obtain ms1 s2 where
      a: "scan_dir cfg p (listdir w p) ms = Inr ms1" and
      c: "scan_paths cfg w ps ms1 s2 = Inr (ms', s')"
      by (auto split: sum.splits)
    from Cons.IH [OF c Cons.prems(2)]
    show ?thesis
    proof
      assume "m \<in> set ms1"
      from scan_dir_movies [OF a this] show ?thesis
        by (metis list.set_intros(1))
    next
      assume "\<exists>p x. p \<in> set ps \<and> x \<in> set (listdir w p)
        \<and> m = \<lparr>path = rstrip_slash p @ ''/'' @ x, title = fst (splitext x),
               repeat = (case re_search_repeat x of None \<Rightarrow> 1 | Some g \<Rightarrow> max 1 (decimal g))\<rparr>"
      then show ?thesis
        by (metis list.set_intros(2))
    qed
  qed
qed

text \<open>
  Claim C9, as amended. Every Movie of the Playlist the full scan returns comes from a
  directory entry of a search path, and its repeat count is a positive integer: the
  number in the leftmost match of \<^verbatim>\<open>_repeat_<digits>x\<close> (case-insensitive) anywhere in
  the file name, or 1 when that number is less than 1; and 1 when nothing matches.
\<close>

theorem scanned_movie_repeat:
  assumes "build_playlist_from_all_files cfg w s = Inr (pl, s')"
    and "m \<in> set (movies pl)"
  shows "1 \<le> repeat m
     \<and> (\<exists>p x. p \<in> set (search_paths w) \<and> x \<in> set (listdir w p)
           \<and> path m = rstrip_slash p @ ''/'' @ x
           \<and> repeat m = (case re_search_repeat x of None \<Rightarrow> 1 | Some g \<Rightarrow> max 1 (decimal g)))"
proof -
  from assms(1) obtain ms where
    sc: "scan_paths cfg w (search_paths w) [] s = Inr (ms, s')" and pl: "pl = Playlist (sort_key path ms)"
    by (auto simp add: build_playlist_from_all_files_def split: sum.splits)
  from pl assms(2) have "m \<in> set ms"
    by (simp add: Playlist_def)
  from scan_paths_movies [OF sc this] obtain p x where
    px: "p \<in> set (search_paths w)" "x \<in> set (listdir w p)" and
    m: "m = \<lparr>path = rstrip_slash p @ ''/'' @ x, title = fst (splitext x),
               repeat = (case re_search_repeat x of None \<Rightarrow> 1 | Some g \<Rightarrow> max 1 (decimal g))\<rparr>"
    by auto
  from m have "1 \<le> repeat m"
    by (simp split: option.splits)
  moreover from m have "path m = rstrip_slash p @ ''/'' @ x"
    "repeat m = (case re_search_repeat x of None \<Rightarrow> 1 | Some g \<Rightarrow> max 1 (decimal g))"
    by simp_all
  ultimately show ?thesis using px by blast
qed

theorem scanned_movie_repeat_witness:
  "build_playlist_from_all_files demo_cfg demo_world demo_state =
     Inr (scanned, demo_state\<lparr>sound_vol := - 1200, alsa_hw_vol := Some ''loud''\<rparr>)
   \<and> \<lparr>path = ''/mnt/usb0/intro_repeat_2x_repeat_5x.mp4'', title = ''intro_repeat_2x_repeat_5x'', repeat = 2\<rparr>
       \<in> set (movies scanned)
   \<and> (\<exists>p x. p \<in> set (search_paths demo_world) \<and> x \<in> set (listdir demo_world p)
          \<and> ''/mnt/usb0/intro_repeat_2x_repeat_5x.mp4'' = rstrip_slash p @ ''/'' @ x
          \<and> 2 = (case re_search_repeat x of None \<Rightarrow> 1 | Some g \<Rightarrow> max 1 (decimal g)))"
  using scanned_movie_repeat [OF scan_demo intro_in_scanned] scan_demo intro_in_scanned
  by simp

text \<open>
  The claim as stated fails: the base name of the first entry of the example ends with
  \<^verbatim>\<open>_repeat_5x\<close>, and the Movie built from it has repeat count 2, from the earlier
  match \<^verbatim>\<open>_repeat_2x\<close>.
\<close>

theorem repeat_not_from_suffix_counterexample:
  "listdir demo_world ''/mnt/usb0'' ! 0 = ''intro_repeat_2x_repeat_5x.mp4''
   \<and> endswith_ci ''_repeat_5x'' (fst (splitext ''intro_repeat_2x_repeat_5x.mp4''))
   \<and> build_playlist_from_all_files demo_cfg demo_world demo_state =
       Inr (scanned, demo_state\<lparr>sound_vol := - 1200, alsa_hw_vol := Some ''loud''\<rparr>)
   \<and> movies scanned ! 1 =
       \<lparr>path = ''/mnt/usb0/intro_repeat_2x_repeat_5x.mp4'', title = ''intro_repeat_2x_repeat_5x'', repeat = 2\<rparr>
   \<and> map path (movies scanned) =
       [''/mnt/usb0/a_repeat_3x.mp4'', ''/mnt/usb0/intro_repeat_2x_repeat_5x.mp4'', ''/mnt/usb1/b.MP4'']"
  by code_simp

subsection \<open>The keyboard thread\<close>

lemma keyboard_thread_raises:
  "handle_keyboard_shortcuts False cfg polls s = Some (Inl ValueError)"
  by (simp add: handle_keyboard_shortcuts_def signal_signal_def)

lemma keyboard_thread_never_running: "\<not> keyboard_thread_running cfg"
  by (simp add: keyboard_thread_running_def signal_signal_def)

text \<open>
  Claim C4 fails on the code. With keyboard control enabled and the key \<^verbatim>\<open>s\<close>
  pressed, the keyboard handler, on the thread \<^verbatim>\<open>__init__\<close> starts it on, raises
  \<^verbatim>\<open>ValueError\<close> at \<^verbatim>\<open>signal.signal\<close> and ends before it reads the event: the
  Player is not told to stop and \<^verbatim>\<open>_playbackStopped\<close> is not set, against the
  handler's own comment "Stop playback when the 's' key is pressed".
\<close>

theorem stop_key_never_handled:
  "keyboard_control demo_cfg
   \<and> playbackStopped demo_state = False
   \<and> handle_keyboard_shortcuts False demo_cfg [[(K_s, demo_world, 0)]] demo_state = Some (Inl ValueError)"
  by (simp add: keyboard_thread_raises demo_cfg_def demo_state_def)

subsection \<open>A GPIO pin mapped to a playlist index\<close>

text \<open>
  Claim C5, as amended. For a trigger that is not suppressed and whose action is an
  index inside the Playlist, the handler passes the index to \<^verbatim>\<open>set_next\<close>, stops
  the Player with \<^verbatim>\<open>stop(3)\<close> and clears \<^verbatim>\<open>_playbackStopped\<close>; it does not call
  \<^verbatim>\<open>_play_next\<close>. The main loop does, once the Player reports the item finished:
  that call picks the pending index up and plays the movie at the index.
\<close>

theorem gpio_index_jump:
  assumes "pinMap cfg = Some pm"
    and "\<not> (gpio_control_disabled_while_playback cfg \<and> is_playing)"
    and "map_of pm (str_int pin) = Some (JInt i)"
    and "playlist s = Some pl"
    and "0 \<le> i" and "i < int (plength pl)"
    and "finished t"
  shows "\<exists>s1. handle_gpio_control cfg is_playing pin s = Inr s1
     \<and> s1 = s\<lparr>playlist := Some (pl\<lparr>pending := Some i\<rparr>), playbackStopped := False,
               events := events s
                 @ (if console_output cfg then [Print (PinTriggered pin (JInt i))] else [])
                 @ [PlaylistSetNext (JInt i), PlayerStop (Some 3)]\<rparr>
     \<and> check_finished cfg t s1 =
         Inr (s1\<lparr>playlist := Some (pl\<lparr>cursor := i, pending := None\<rparr>),
               events := events s1 @ [Enter_play_next, PlaylistNext (is_random cfg)]
                 @ (if console_output cfg then [Print (PlayingNext (path (movies pl ! nat i)))] else [])
                 @ [PlayerPlay (path (movies pl ! nat i)) (sound_vol s)]\<rparr>)"
proof -
  let ?s1 = "s\<lparr>playlist := Some (pl\<lparr>pending := Some i\<rparr>), playbackStopped := False,
               events := events s
                 @ (if console_output cfg then [Print (PinTriggered pin (JInt i))] else [])
                 @ [PlaylistSetNext (JInt i), PlayerStop (Some 3)]\<rparr>"
  from assms(5,6) have ne: "plength pl \<noteq> 0" "plength (pl\<lparr>pending := Some i\<rparr>) \<noteq> 0"
    by (auto simp add: plength_def)
  from assms(2) have ns: "\<not> gpio_control_disabled_while_playback cfg \<or> \<not> is_playing"
    by simp
  from assms(1,3,4,5,6) ns have h: "handle_gpio_control cfg is_playing pin s = Inr ?s1"
    by (auto simp add: handle_gpio_control_def emit_def print_msg_def Let_def)
  from assms(7) ne have c: "check_finished cfg t ?s1 =
         Inr (?s1\<lparr>playlist := Some (pl\<lparr>cursor := i, pending := None\<rparr>),
               events := events ?s1 @ [Enter_play_next, PlaylistNext (is_random cfg)]
                 @ (if console_output cfg then [Print (PlayingNext (path (movies pl ! nat i)))] else [])
                 @ [PlayerPlay (path (movies pl ! nat i)) (sound_vol s)]\<rparr>)"
    by (simp add: check_finished_def play_next_def next_movie_def emit_def print_msg_def Let_def)
  from h c show ?thesis by blast
qed

theorem gpio_index_jump_witness:
  "pinMap demo_cfg = Some [(''11'', JInt 1), (''13'', JStr ''K_SPACE''), (''15'', JStr ''K_RIGHT'')]
   \<and> \<not> (gpio_control_disabled_while_playback demo_cfg \<and> False)
   \<and> map_of [(''11'', JInt 1), (''13'', JStr ''K_SPACE''), (''15'', JStr ''K_RIGHT'')] (str_int 11)
       = Some (JInt 1)
   \<and> playlist demo_state = Some (Playlist [movie_a, movie_b, movie_c])
   \<and> (1::int) < int (plength (Playlist [movie_a, movie_b, movie_c]))
   \<and> finished demo_tick
   \<and> (\<exists>s1. handle_gpio_control demo_cfg False 11 demo_state = Inr s1
         \<and> playlist s1 = Some ((Playlist [movie_a, movie_b, movie_c])\<lparr>pending := Some 1\<rparr>)
         \<and> playbackStopped s1 = False
         \<and> events s1 = [Print (PinTriggered 11 (JInt 1)), PlaylistSetNext (JInt 1), PlayerStop (Some 3)]
         \<and> check_finished demo_cfg demo_tick s1 =
             Inr (s1\<lparr>playlist := Some ((Playlist [movie_a, movie_b, movie_c])\<lparr>cursor := 1, pending := None\<rparr>),
                   events := events s1 @ [Enter_play_next, PlaylistNext False,
                                          Print (PlayingNext ''/mnt/usb1/b.MP4''),
                                          PlayerPlay ''/mnt/usb1/b.MP4'' 0]\<rparr>))"
proof -
  have h1: "pinMap demo_cfg = Some [(''11'', JInt 1), (''13'', JStr ''K_SPACE''), (''15'', JStr ''K_RIGHT'')]"
    by (simp add: demo_cfg_def)
  have h2: "\<not> (gpio_control_disabled_while_playback demo_cfg \<and> False)"
    by simp
  have h3: "map_of [(''11'', JInt 1), (''13'', JStr ''K_SPACE''), (''15'', JStr ''K_RIGHT'')] (str_int 11)
              = Some (JInt 1)"
    by (simp add: str_int_11)
  have h4: "playlist demo_state = Some (Playlist [movie_a, movie_b, movie_c])"
    by (simp add: demo_state_def)
  have h5: "(0::int) \<le> 1"
    by simp
  have h6: "(1::int) < int (plength (Playlist [movie_a, movie_b, movie_c]))"
    by (simp add: plength_def Playlist_def)
  have h7: "finished demo_tick"
    by (simp add: demo_tick_def)
  have c: "console_output demo_cfg" "is_random demo_cfg = False" "events demo_state = []"
    "sound_vol demo_state = 0" "path (movies (Playlist [movie_a, movie_b, movie_c]) ! nat 1) = ''/mnt/usb1/b.MP4''"
    by (simp_all add: demo_cfg_def demo_state_def Playlist_def movie_b_def Movie_def)
  show ?thesis
    using gpio_index_jump [OF h1 h2 h3 h4 h5 h6 h7] h1 h3 h4 h6 h7 c
    by simp
qed

text \<open>
  The claim as stated fails: with GPIO control disabled during playback and the Player
  playing, the trigger of the pin mapped to index 1 changes nothing but the log; and
  when the trigger is accepted, the handler's trace ends with the stop, without a call
  of \<^verbatim>\<open>_play_next\<close>.
\<close>

theorem gpio_suppressed_counterexample:
  "map_of [(''11'', JInt 1), (''13'', JStr ''K_SPACE''), (''15'', JStr ''K_RIGHT'')] (str_int 11) = Some (JInt 1)
   \<and> handle_gpio_control demo_cfg True 11 demo_state = Inr (demo_state\<lparr>events := [Print GpioDisabled]\<rparr>)
   \<and> handle_gpio_control demo_cfg False 11 demo_state =
       Inr (demo_state\<lparr>playlist := Some ((Playlist [movie_a, movie_b, movie_c])\<lparr>pending := Some 1\<rparr>),
                       events := [Print (PinTriggered 11 (JInt 1)), PlaylistSetNext (JInt 1),
                                  PlayerStop (Some 3)]\<rparr>)"
  by code_simp

subsection \<open>Leaving the main loop\<close>

lemma main_loop_never_returns:
  "running s \<Longrightarrow> main_loop cfg False ts s \<noteq> Some (Inr s')"
proof (induction ts arbitrary: s)
  case Nil
  then show ?case by simp
next
  case (Cons ta ts)
  obtain t a where ta: "ta = (t, a)"
    by (cases ta)
  show ?case
  proof (cases "loop_body cfg t s")
    case (Inl e)
    with Cons.prems ta show ?thesis by simp
  next
    case (Inr s1)
    from loop_body_keeps_flags [OF Inr] Cons.prems have "running s1"
      by simp
    from Cons.IH [OF this] Inr Cons.prems ta show ?thesis
      by simp
  qed
qed

lemma run_loop_never_returns:
  "running s \<Longrightarrow> run_loop cfg ts s \<noteq> Some (Inr s')"
  using keyboard_thread_never_running [of cfg] main_loop_never_returns [of s cfg ts s']
  by (simp add: run_loop_def)

text \<open>
  Claim C6 fails on the code. The keyboard thread raises \<^verbatim>\<open>ValueError\<close> at
  \<^verbatim>\<open>signal.signal\<close> before it reads the escape key, so the thread is not running
  and \<^verbatim>\<open>_handle_exit_signal\<close> is not registered. An iteration during which the
  escape key is pressed leaves \<^verbatim>\<open>_running\<close> set and the loop goes on; on
  \<^verbatim>\<open>SIGINT\<close> the exception \<^verbatim>\<open>KeyboardInterrupt\<close> leaves \<^verbatim>\<open>run\<close>, and the exit
  path with the Player's \<^verbatim>\<open>stop()\<close> and \<^verbatim>\<open>GPIO.cleanup()\<close> is not executed,
  against the comments "cleanly exit" and "Clean up and exit".
\<close>

theorem quit_never_exits_cleanly:
  "handle_keyboard_shortcuts False demo_cfg [[(K_ESCAPE, demo_world, 0)]] demo_state = Some (Inl ValueError)
   \<and> keyboard_thread_running demo_cfg = False
   \<and> running demo_state
   \<and> run_loop demo_cfg [escape_pressed] demo_state = None
   \<and> run_loop demo_cfg [sigint_sent] demo_state = Some (Inl KeyboardInterrupt)"
  by code_simp

subsection \<open>An empty playlist\<close>

text \<open>
  Claim C7. While the current Playlist is empty, \<^verbatim>\<open>_play_next\<close> and
  \<^verbatim>\<open>_play_previous\<close> return at once: the trace gains the marker of the call itself
  and nothing else (no call to the Playlist, none to the Player, no message), and every
  other field of the Controller keeps its value.
\<close>

theorem play_next_previous_empty_noop:
  "playlist s = Some pl \<Longrightarrow> plength pl = 0 \<Longrightarrow>
     play_next cfg r s = Inr (s\<lparr>events := events s @ [Enter_play_next]\<rparr>)
   \<and> play_previous cfg r s = Inr (s\<lparr>events := events s @ [Enter_play_previous]\<rparr>)"
  by (simp add: play_next_def play_previous_def emit_def)

theorem play_next_previous_empty_noop_witness:
  "playlist empty_state = Some (Playlist []) \<and> plength (Playlist []) = 0
   \<and> play_next demo_cfg 7 empty_state = Inr (empty_state\<lparr>events := [Enter_play_next]\<rparr>)
   \<and> play_previous demo_cfg 7 empty_state = Inr (empty_state\<lparr>events := [Enter_play_previous]\<rparr>)"
proof -
  have h1: "playlist empty_state = Some (Playlist [])"
    by (simp add: empty_state_def demo_state_def)
  have h2: "plength (Playlist []) = 0"
    by (simp add: plength_def Playlist_def)
  have ev: "events empty_state = []"
    by (simp add: empty_state_def demo_state_def)
  show ?thesis
    using play_next_previous_empty_noop [OF h1 h2, of demo_cfg 7] h1 h2 ev by simp
qed

subsection \<open>The GPIO handler\<close>

text \<open>
  Claim C10. A trigger that is not suppressed (a pin map is set, the handler is not
  disabled by running playback, the pin has an entry) is treated as a key press if and
  only if its action is one of the eight names \<^verbatim>\<open>K_ESCAPE\<close>, \<^verbatim>\<open>K_k\<close>, \<^verbatim>\<open>K_s\<close>,
  \<^verbatim>\<open>K_SPACE\<close>, \<^verbatim>\<open>K_p\<close>, \<^verbatim>\<open>K_b\<close>, \<^verbatim>\<open>K_o\<close>, \<^verbatim>\<open>K_i\<close>: then a key-down event
  with the key constant of that name is posted and nothing else happens. Every other
  action, \<^verbatim>\<open>K_RIGHT\<close> and \<^verbatim>\<open>K_LEFT\<close> among them, is passed to the Playlist's
  \<^verbatim>\<open>set_next\<close>, the Player is stopped with \<^verbatim>\<open>stop(3)\<close> and \<^verbatim>\<open>_playbackStopped\<close>
  is cleared.
\<close>

theorem gpio_action_dispatch:
  assumes "pinMap cfg = Some pm"
    and "\<not> (gpio_control_disabled_while_playback cfg \<and> is_playing)"
    and "map_of pm (str_int pin) = Some action"
    and "playlist s = Some pl"
  shows "handle_gpio_control cfg is_playing pin s =
     (if action \<in> JStr ` {''K_ESCAPE'', ''K_k'', ''K_s'', ''K_SPACE'', ''K_p'', ''K_b'', ''K_o'', ''K_i''}
      then Inr ((print_msg cfg (PinTriggered pin action) s)
                 \<lparr>events := events (print_msg cfg (PinTriggered pin action) s)
                              @ [PostKeyDown (action_key action)]\<rparr>)
      else Inr ((print_msg cfg (PinTriggered pin action) s)
                 \<lparr>playlist := Some (set_next action pl), playbackStopped := False,
                  events := events (print_msg cfg (PinTriggered pin action) s)
                              @ [PlaylistSetNext action, PlayerStop (Some 3)]\<rparr>))
   \<and> map action_key (map JStr [''K_ESCAPE'', ''K_k'', ''K_s'', ''K_SPACE'', ''K_p'', ''K_b'', ''K_o'', ''K_i''])
       = map Some [K_ESCAPE, K_k, K_s, K_SPACE, K_p, K_b, K_o, K_i]"
proof -
  have keys: "map action_key (map JStr [''K_ESCAPE'', ''K_k'', ''K_s'', ''K_SPACE'', ''K_p'', ''K_b'', ''K_o'', ''K_i''])
       = map Some [K_ESCAPE, K_k, K_s, K_SPACE, K_p, K_b, K_o, K_i]"
    by (simp add: pygame_key_def)
  have disp: "handle_gpio_control cfg is_playing pin s =
     (if is_keyboard_action action
      then Inr (emit (PostKeyDown (action_key action)) (print_msg cfg (PinTriggered pin action) s))
      else Inr ((emit (PlayerStop (Some 3)) (emit (PlaylistSetNext action)
                  ((print_msg cfg (PinTriggered pin action) s)\<lparr>playlist := Some (set_next action pl)\<rparr>)))
                \<lparr>playbackStopped := False\<rparr>))"
    using assms by (auto simp add: handle_gpio_control_def print_msg_def emit_def Let_def)
  have mem: "is_keyboard_action action \<longleftrightarrow>
      action \<in> JStr ` {''K_ESCAPE'', ''K_k'', ''K_s'', ''K_SPACE'', ''K_p'', ''K_b'', ''K_o'', ''K_i''}"
    by (cases action) (auto simp add: keyboard_actions_def)
  show ?thesis
    unfolding disp mem using keys by (simp add: emit_def print_msg_def)
qed

theorem gpio_action_dispatch_witness:
  "pinMap demo_cfg = Some [(''11'', JInt 1), (''13'', JStr ''K_SPACE''), (''15'', JStr ''K_RIGHT'')]
   \<and> \<not> (gpio_control_disabled_while_playback demo_cfg \<and> False)
   \<and> map_of [(''11'', JInt 1), (''13'', JStr ''K_SPACE''), (''15'', JStr ''K_RIGHT'')] (str_int 15)
       = Some (JStr ''K_RIGHT'')
   \<and> playlist demo_state = Some (Playlist [movie_a, movie_b, movie_c])
   \<and> handle_gpio_control demo_cfg False 15 demo_state =
       Inr (demo_state\<lparr>events := [Print (PinTriggered 15 (JStr ''K_RIGHT'')),
                                   PlaylistSetNext (JStr ''K_RIGHT''), PlayerStop (Some 3)]\<rparr>)"
proof -
  have h1: "pinMap demo_cfg = Some [(''11'', JInt 1), (''13'', JStr ''K_SPACE''), (''15'', JStr ''K_RIGHT'')]"
    by (simp add: demo_cfg_def)
  have h2: "\<not> (gpio_control_disabled_while_playback demo_cfg \<and> False)"
    by simp
  have h3: "map_of [(''11'', JInt 1), (''13'', JStr ''K_SPACE''), (''15'', JStr ''K_RIGHT'')] (str_int 15)
              = Some (JStr ''K_RIGHT'')"
    by (simp add: str_int_15)
  have h4: "playlist demo_state = Some (Playlist [movie_a, movie_b, movie_c])"
    by (simp add: demo_state_def)
  show ?thesis
    using gpio_action_dispatch [OF h1 h2 h3 h4] h1 h3 h4
    by (simp add: print_msg_def emit_def demo_cfg_def demo_state_def)
qed

end
